theory Spec2Isabelle
  imports Complex_Main "HOL-Library.Multiset"
begin

section \<open>Values of the program\<close>

text \<open>
  The script \<^verbatim>\<open>scan.mjs\<close> works on payloads parsed from JSON. A payload is a value of
  type \<open>json\<close>; an object is a list of key/value pairs read with \<open>map_of\<close> (the
  first pair with a key is the property of that name). The result
  of reading a property is a \<open>json option\<close>, where \<open>None\<close> is JavaScript's
  \<^verbatim>\<open>undefined\<close>.

  A JavaScript number is a double: \<open>Num x\<close> for the finite double of value \<open>x\<close>,
  \<^verbatim>\<open>Infinity\<close>, \<^verbatim>\<open>-Infinity\<close> or \<^verbatim>\<open>NaN\<close>. (The two zeros are one value here: no
  operation of the script tells them apart.) A JSON text can carry a literal beyond the
  range of the doubles, such as \<^verbatim>\<open>1e999\<close>, which is parsed to an infinity.
\<close>

datatype number = Num real | PInf | NInf | NaN

datatype json =
    JNull
  | JBool bool
  | JNum number
  | JStr string
  | JArr "json list"
  | JObj "(string \<times> json) list"

datatype error = TypeError

text \<open>
  What the script calls and does not define: the arithmetic of doubles, and functions of
  the JavaScript runtime and of Node's \<^verbatim>\<open>path\<close>, \<^verbatim>\<open>fs\<close> and \<^verbatim>\<open>Buffer\<close> modules.
  \<open>round_double\<close> takes the exact result of an operation on finite doubles to the double
  that the operation returns (the nearest one, an infinity on overflow), and
  \<open>approx_ln\<close> is the approximation of the natural logarithm that \<^verbatim>\<open>Math.log\<close> returns
  at a finite positive double other than 1. All of them are parameters of the model:
  a theorem holds whatever they compute, unless it states a hypothesis on them.
\<close>

record platform =
  round_double :: "real \<Rightarrow> number"
  approx_ln :: "real \<Rightarrow> number"
  parseFloat :: "string \<Rightarrow> number"
  number_to_string :: "number \<Rightarrow> string"
  template_string :: "json \<Rightarrow> error + string"
  path_join :: "string \<Rightarrow> string \<Rightarrow> string"
  path_basename :: "string \<Rightarrow> string"
  png_write_ok :: "json \<Rightarrow> string \<Rightarrow> bool"

text \<open>\<^verbatim>\<open>v.k\<close> on a value that is neither \<^verbatim>\<open>null\<close> nor \<^verbatim>\<open>undefined\<close>: objects are
  looked up, every other value has none of the property names the script reads.\<close>

fun read_prop :: "json \<Rightarrow> string \<Rightarrow> json option" where
  "read_prop (JObj kvs) k = map_of kvs k"
| "read_prop _ k = None"

text \<open>\<^verbatim>\<open>data?.k\<close>: optional chaining gives \<^verbatim>\<open>undefined\<close> on \<^verbatim>\<open>null\<close>.\<close>

definition opt_prop :: "json \<Rightarrow> string \<Rightarrow> json option" where
  "opt_prop data k = (case data of JNull \<Rightarrow> None | _ \<Rightarrow> read_prop data k)"

text \<open>\<^verbatim>\<open>a ?? b\<close>: the right operand is taken when the left one is \<^verbatim>\<open>undefined\<close> or
  \<^verbatim>\<open>null\<close>.\<close>

definition nullish :: "json option \<Rightarrow> json option \<Rightarrow> json option" where
  "nullish a b = (case a of None \<Rightarrow> b | Some JNull \<Rightarrow> b | Some v \<Rightarrow> Some v)"

text \<open>Truthiness of a value, and \<^verbatim>\<open>a || b\<close>.\<close>

fun truthy :: "json \<Rightarrow> bool" where
  "truthy JNull = False"
| "truthy (JBool b) = b"
| "truthy (JNum n) = (n \<noteq> Num 0 \<and> n \<noteq> NaN)"
| "truthy (JStr s) = (s \<noteq> [])"
| "truthy (JArr xs) = True"
| "truthy (JObj kvs) = True"

definition or_else :: "json option \<Rightarrow> json option \<Rightarrow> json option" where
  "or_else a b = (case a of None \<Rightarrow> b | Some v \<Rightarrow> if truthy v then Some v else b)"

definition endsWith_percent :: "string \<Rightarrow> bool" where
  "endsWith_percent s = (s \<noteq> [] \<and> last s = CHR ''%'')"


section \<open>Arithmetic of doubles\<close>

text \<open>\<^verbatim>\<open>a > b\<close> and \<^verbatim>\<open>a >= b\<close>: exact on doubles, and false when an operand is
  \<^verbatim>\<open>NaN\<close>.\<close>

fun num_gt :: "number \<Rightarrow> number \<Rightarrow> bool" where
  "num_gt (Num x) (Num y) = (x > y)"
| "num_gt (Num x) NInf = True"
| "num_gt PInf (Num y) = True"
| "num_gt PInf NInf = True"
| "num_gt _ _ = False"

definition num_ge :: "number \<Rightarrow> number \<Rightarrow> bool" where
  "num_ge a b = (num_gt a b \<or> (a = b \<and> a \<noteq> NaN))"

text \<open>\<^verbatim>\<open>-a\<close>: exact.\<close>

fun num_neg :: "number \<Rightarrow> number" where
  "num_neg (Num x) = Num (- x)"
| "num_neg PInf = NInf"
| "num_neg NInf = PInf"
| "num_neg NaN = NaN"

text \<open>\<^verbatim>\<open>a + b\<close>: the sum of two finite doubles is rounded; infinities of opposite sign
  add up to \<^verbatim>\<open>NaN\<close>.\<close>

fun num_add :: "platform \<Rightarrow> number \<Rightarrow> number \<Rightarrow> number" where
  "num_add P (Num x) (Num y) = round_double P (x + y)"
| "num_add P NaN b = NaN"
| "num_add P a NaN = NaN"
| "num_add P PInf NInf = NaN"
| "num_add P NInf PInf = NaN"
| "num_add P PInf b = PInf"
| "num_add P a PInf = PInf"
| "num_add P NInf b = NInf"
| "num_add P a NInf = NInf"

text \<open>\<^verbatim>\<open>a / 100\<close>: the quotient of a finite double is rounded (a tiny one to 0).\<close>

fun div_100 :: "platform \<Rightarrow> number \<Rightarrow> number" where
  "div_100 P (Num x) = round_double P (x / 100)"
| "div_100 P a = a"

text \<open>\<^verbatim>\<open>Math.log(a)\<close>: the language fixes the result at \<^verbatim>\<open>NaN\<close>, below 0, at 0, at 1 and
  at \<^verbatim>\<open>Infinity\<close>, and leaves an approximation to the implementation elsewhere.\<close>

fun math_log :: "platform \<Rightarrow> number \<Rightarrow> number" where
  "math_log P (Num x) =
     (if x < 0 then NaN else if x = 0 then NInf else if x = 1 then Num 0 else approx_ln P x)"
| "math_log P PInf = PInf"
| "math_log P NInf = NaN"
| "math_log P NaN = NaN"

text \<open>
  The sign of the difference \<^verbatim>\<open>a - b\<close>. The difference of two finite doubles is
  rounded, which keeps its sign, and the difference of two different doubles is never
  rounded to 0; the difference of two equal infinities is \<^verbatim>\<open>NaN\<close>.
\<close>

datatype cmp_result = CNeg | CZero | CPos | CNaN

fun diff_sign :: "number \<Rightarrow> number \<Rightarrow> cmp_result" where
  "diff_sign (Num x) (Num y) = (if x < y then CNeg else if x = y then CZero else CPos)"
| "diff_sign NaN b = CNaN"
| "diff_sign a NaN = CNaN"
| "diff_sign PInf PInf = CNaN"
| "diff_sign NInf NInf = CNaN"
| "diff_sign PInf b = CPos"
| "diff_sign a NInf = CPos"
| "diff_sign NInf b = CNeg"
| "diff_sign a PInf = CNeg"


section \<open>Trait normalizer\<close>

text \<open>
  A normalized trait, as built by the callback of \<^verbatim>\<open>raw.map\<close> in \<^verbatim>\<open>normalizeTraits\<close>:
  \<open>trait_type\<close> and \<open>trait_value\<close> (the field \<^verbatim>\<open>value\<close>) are whatever the entry
  carries or the default; \<open>percent\<close> is a number or \<^verbatim>\<open>null\<close> (\<open>None\<close>); \<open>rarity\<close> is
  whatever the entry carries, or \<open>JNull\<close>.
\<close>

record trait =
  trait_type :: json
  trait_value :: json
  percent :: "number option"
  rarity :: json

text \<open>The end of a chain \<^verbatim>\<open>a ?? ... ?? d\<close> whose last operand \<open>d\<close> is a literal.\<close>

definition or_default :: "json option \<Rightarrow> json \<Rightarrow> json" where
  "or_default a d = (case nullish a None of None \<Rightarrow> d | Some v \<Rightarrow> v)"

text \<open>The callback \<^verbatim>\<open>t => {...}\<close>. Every property read is on \<^verbatim>\<open>t\<close> itself, with
  no optional chaining, and reading a property of \<^verbatim>\<open>null\<close> throws a TypeError: the
  callback throws exactly when \<^verbatim>\<open>t\<close> is \<^verbatim>\<open>null\<close>.\<close>

definition normalizeTrait :: "platform \<Rightarrow> json \<Rightarrow> error + trait" where
  "normalizeTrait P t =
     (case t of
        JNull \<Rightarrow> Inl TypeError
      | _ \<Rightarrow>
        (let percent0 = or_default (nullish (read_prop t ''percent'') (nullish (read_prop t ''percentage'')
                          (nullish (read_prop t ''frequency'') (read_prop t ''rarityPercent'')))) JNull;
             rarity0 = or_default (nullish (read_prop t ''rarity'') (read_prop t ''score'')) JNull
         in Inr \<lparr> trait_type = or_default (nullish (read_prop t ''trait_type'')
                                   (nullish (read_prop t ''traitType'') (read_prop t ''type''))) (JStr ''trait''),
                  trait_value = or_default (nullish (read_prop t ''value'')
                                   (nullish (read_prop t ''name'') (read_prop t ''val''))) (JStr ''''),
                  percent = (case percent0 of
                               JStr s \<Rightarrow> if endsWith_percent s then Some (parseFloat P s) else None
                             | JNum r \<Rightarrow> Some r
                             | _ \<Rightarrow> None),
                  rarity = rarity0 \<rparr>))"

text \<open>\<^verbatim>\<open>raw.map(callback)\<close>: the first entry on which the callback throws ends the map.\<close>

fun map_traits :: "platform \<Rightarrow> json list \<Rightarrow> error + trait list" where
  "map_traits P [] = Inr []"
| "map_traits P (t # ts) =
     (case normalizeTrait P t of
        Inl e \<Rightarrow> Inl e
      | Inr r \<Rightarrow> (case map_traits P ts of Inl e \<Rightarrow> Inl e | Inr rs \<Rightarrow> Inr (r # rs)))"

definition raw_traits :: "json \<Rightarrow> json list" where
  "raw_traits data =
     (case opt_prop data ''attributes'' of
        Some (JArr xs) \<Rightarrow> xs
      | _ \<Rightarrow> (case opt_prop data ''traits'' of Some (JArr ys) \<Rightarrow> ys | _ \<Rightarrow> []))"

definition normalizeTraits :: "platform \<Rightarrow> json \<Rightarrow> error + trait list" where
  "normalizeTraits P data = map_traits P (raw_traits data)"


section \<open>Rarity scorer\<close>

text \<open>
  \<^verbatim>\<open>Number(score.toFixed(6))\<close>. On a finite double below \<open>10\<^sup>2\<^sup>1\<close> in absolute value
  \<^verbatim>\<open>toFixed(6)\<close> prints the decimal \<open>n / 10\<^sup>6\<close> nearest to the absolute value, the larger
  \<open>n\<close> on a tie, with the sign (\<open>toFixed6\<close> is the value of that decimal), and
  \<^verbatim>\<open>Number\<close> reads the decimal back as the nearest double. At \<open>10\<^sup>2\<^sup>1\<close> and above,
  and on an infinity or \<^verbatim>\<open>NaN\<close>, the text is that of the number itself, which
  \<^verbatim>\<open>Number\<close> reads back as it was.
\<close>

definition toFixed6 :: "real \<Rightarrow> real" where
  "toFixed6 x = sgn x * of_int \<lfloor>\<bar>x\<bar> * 10 ^ 6 + 1 / 2\<rfloor> / 10 ^ 6"

fun Number_toFixed6 :: "platform \<Rightarrow> number \<Rightarrow> number" where
  "Number_toFixed6 P (Num x) = (if \<bar>x\<bar> \<ge> 10 ^ 21 then Num x else round_double P (toFixed6 x))"
| "Number_toFixed6 P a = a"

text \<open>The body of the loop \<^verbatim>\<open>for (const t of traits)\<close>, on the running score.\<close>

definition score_step :: "platform \<Rightarrow> number \<Rightarrow> trait \<Rightarrow> number" where
  "score_step P score t =
     (case percent t of
        Some n \<Rightarrow>
          if num_gt n (Num 0) then num_add P score (num_neg (math_log P (div_100 P n)))
          else (case rarity t of JNum r \<Rightarrow> num_add P score r | _ \<Rightarrow> num_add P score (Num 0.5))
      | None \<Rightarrow> (case rarity t of JNum r \<Rightarrow> num_add P score r | _ \<Rightarrow> num_add P score (Num 0.5)))"

fun score_loop :: "platform \<Rightarrow> number \<Rightarrow> trait list \<Rightarrow> number" where
  "score_loop P score [] = score"
| "score_loop P score (t # ts) = score_loop P (score_step P score t) ts"

definition rarityScore :: "platform \<Rightarrow> json \<Rightarrow> error + number" where
  "rarityScore P data =
     (case opt_prop data ''rarityScore'' of
        Some (JNum r) \<Rightarrow> Inr r
      | _ \<Rightarrow> (case normalizeTraits P data of
                Inl e \<Rightarrow> Inl e
              | Inr traits \<Rightarrow> Inr (Number_toFixed6 P (score_loop P (Num 0) traits))))"

text \<open>
  \<^verbatim>\<open>traitsSummary\<close>. A value spliced into a template literal is converted by the
  platform (\<open>template_string\<close>; the conversion of an object can throw), a number by
  \<open>number_to_string\<close>.
\<close>

definition trait_summary :: "platform \<Rightarrow> trait \<Rightarrow> error + string" where
  "trait_summary P t =
     (let pct = (case percent t of None \<Rightarrow> '''' | Some n \<Rightarrow> number_to_string P n @ ''%'')
      in case template_string P (trait_type t) of
           Inl e \<Rightarrow> Inl e
         | Inr ty \<Rightarrow>
           (case template_string P (trait_value t) of
              Inl e \<Rightarrow> Inl e
            | Inr v \<Rightarrow> Inr (ty @ '':'' @ v @ (if pct \<noteq> [] then ''('' @ pct @ '')'' else ''''))))"

fun map_summary :: "platform \<Rightarrow> trait list \<Rightarrow> error + string list" where
  "map_summary P [] = Inr []"
| "map_summary P (t # ts) =
     (case trait_summary P t of
        Inl e \<Rightarrow> Inl e
      | Inr s \<Rightarrow> (case map_summary P ts of Inl e \<Rightarrow> Inl e | Inr ss \<Rightarrow> Inr (s # ss)))"

fun join_with :: "string \<Rightarrow> string list \<Rightarrow> string" where
  "join_with sep [] = ''''"
| "join_with sep [s] = s"
| "join_with sep (s # t # ss) = s @ sep @ join_with sep (t # ss)"

definition traitsSummary :: "platform \<Rightarrow> json \<Rightarrow> error + string" where
  "traitsSummary P data =
     (case normalizeTraits P data of
        Inl e \<Rightarrow> Inl e
      | Inr traits \<Rightarrow>
        (case map_summary P traits of Inl e \<Rightarrow> Inl e | Inr ss \<Rightarrow> Inr (join_with '' | '' ss)))"


section \<open>Configuration and input\<close>

text \<open>
  The constants read from the environment that the modelled code depends on.
  \<open>TOP_K\<close> is the result of \<^verbatim>\<open>parseInt\<close> and \<open>MIN_SCORE\<close> of \<^verbatim>\<open>parseFloat\<close>: a
  number or \<^verbatim>\<open>NaN\<close>. \<^verbatim>\<open>BASE\<close> only names the remote service and \<^verbatim>\<open>CONCURRENCY\<close>,
  taken to be a valid limit (an integer of at least 1), only bounds how many calls are
  in flight; the results of the calls are given by the environment below.
\<close>

record config =
  OUTDIR :: string
  ADDR :: string
  RARE_ONLY :: bool
  TOP_K :: number
  MIN_SCORE :: number

text \<open>
  \<^verbatim>\<open>split(/\r?\n/)\<close>: a line ends at a line feed, which takes a carriage return
  right before it along. A string is a list of code units; the model has the 256 code
  units of Latin-1.
\<close>

fun split_lines :: "string \<Rightarrow> string \<Rightarrow> string list" where
  "split_lines cur [] = [cur]"
| "split_lines cur [c] = (if c = CHR 0x0A then [cur, ''''] else [cur @ [c]])"
| "split_lines cur (c # d # cs) =
     (if c = CHR 0x0A then cur # split_lines '''' (d # cs)
      else if c = CHR 0x0D \<and> d = CHR 0x0A then cur # split_lines '''' cs
      else split_lines (cur @ [c]) (d # cs))"

text \<open>The white space and line terminators that \<^verbatim>\<open>trim\<close> removes, among the code units
  of the model: tab, line feed, vertical tab, form feed, carriage return, space and
  no-break space.\<close>

definition is_space :: "char \<Rightarrow> bool" where
  "is_space c = (c \<in> {CHR 0x09, CHR 0x0A, CHR 0x0B, CHR 0x0C, CHR 0x0D, CHR 0x20, CHR 0xA0})"

definition trim :: "string \<Rightarrow> string" where
  "trim s = rev (dropWhile is_space (rev (dropWhile is_space s)))"

definition read_fids :: "string \<Rightarrow> string list" where
  "read_fids content = filter (\<lambda>s. s \<noteq> []) (map trim (split_lines '''' content))"


section \<open>Resilient fetcher\<close>

text \<open>
  What one pass through the \<^verbatim>\<open>try\<close> block meets: the response that \<^verbatim>\<open>httpPost\<close>
  resolves to (status and body), or an exception (a network error, a status that axios
  rejects, a failing write), which the \<^verbatim>\<open>catch\<close> logs. The environment gives each
  call of \<^verbatim>\<open>generateMeta\<close> and \<^verbatim>\<open>requestSignature\<close> the list of what its passes
  meet. The loop \<^verbatim>\<open>for(;;)\<close> returns at the first success; when the list ends without
  one, the call has not returned (\<open>None\<close>).
\<close>

datatype http_result = Response int json | Thrown

definition succeeded :: "http_result \<Rightarrow> json option" where
  "succeeded r =
     (case r of
        Response status body \<Rightarrow> if status = 200 \<and> truthy body then Some body else None
      | Thrown \<Rightarrow> None)"

definition maxBack :: int where
  "maxBack = 50"

text \<open>The assignments to \<^verbatim>\<open>backoff\<close> at the end of a failed pass (lines 113 and 136).\<close>

definition generate_backoff :: "int \<Rightarrow> int" where
  "generate_backoff backoff = min maxBack (max 500 \<lfloor>real_of_int backoff * 1.5\<rfloor>)"

definition sign_backoff :: "int \<Rightarrow> int" where
  "sign_backoff backoff = min maxBack (max 800 \<lfloor>real_of_int backoff * 1.5\<rfloor>)"

definition maybeSavePng :: "platform \<Rightarrow> config \<Rightarrow> json \<Rightarrow> string \<Rightarrow> string option" where
  "maybeSavePng P cfg data fid =
     (case or_else (opt_prop data ''generatedImage'')
             (or_else (opt_prop data ''imageBase64'') (Some JNull)) of
        None \<Rightarrow> None
      | Some b64 \<Rightarrow>
          if \<not> truthy b64 then None
          else (let out = path_join P (OUTDIR cfg) (''warplet-'' @ fid @ ''.png'')
                in if png_write_ok P b64 out then Some out else None))"

record gen_result =
  gen_ok :: bool
  gen_data :: json
  gen_jsonPath :: string
  gen_pngPath :: "string option"

text \<open>
  \<^verbatim>\<open>generateMeta\<close>, from a given value of \<^verbatim>\<open>backoff\<close>. Besides the result, the model
  returns the delays handed to \<^verbatim>\<open>jitter\<close> before \<^verbatim>\<open>sleep\<close>, one per failed pass, in
  order. (The jitter is random and the sleep changes no value.)
\<close>

fun generateMeta_from :: "platform \<Rightarrow> config \<Rightarrow> string \<Rightarrow> int \<Rightarrow> http_result list
    \<Rightarrow> (gen_result \<times> int list) option" where
  "generateMeta_from P cfg fid backoff [] = None"
| "generateMeta_from P cfg fid backoff (r # rs) =
     (case succeeded r of
        Some data \<Rightarrow>
          Some (\<lparr> gen_ok = True, gen_data = data,
                   gen_jsonPath = path_join P (OUTDIR cfg) (''warplet-'' @ fid @ ''.json''),
                   gen_pngPath = maybeSavePng P cfg data fid \<rparr>, [])
      | None \<Rightarrow>
          (let backoff' = generate_backoff backoff
           in case generateMeta_from P cfg fid backoff' rs of
                None \<Rightarrow> None
              | Some (res, delays) \<Rightarrow> Some (res, backoff' # delays)))"

definition generateMeta :: "platform \<Rightarrow> config \<Rightarrow> string \<Rightarrow> http_result list
    \<Rightarrow> (gen_result \<times> int list) option" where
  "generateMeta P cfg fid rs = generateMeta_from P cfg fid 10 rs"

record sign_result =
  sign_ok :: bool
  sign_data :: json
  sign_path :: string

fun requestSignature_from :: "platform \<Rightarrow> config \<Rightarrow> string \<Rightarrow> int \<Rightarrow> http_result list
    \<Rightarrow> (sign_result \<times> int list) option" where
  "requestSignature_from P cfg fid backoff [] = None"
| "requestSignature_from P cfg fid backoff (r # rs) =
     (case succeeded r of
        Some data \<Rightarrow>
          Some (\<lparr> sign_ok = True, sign_data = data,
                   sign_path = path_join P (OUTDIR cfg) (''sign-'' @ fid @ ''.json'') \<rparr>, [])
      | None \<Rightarrow>
          (let backoff' = sign_backoff backoff
           in case requestSignature_from P cfg fid backoff' rs of
                None \<Rightarrow> None
              | Some (res, delays) \<Rightarrow> Some (res, backoff' # delays)))"

definition requestSignature :: "platform \<Rightarrow> config \<Rightarrow> string \<Rightarrow> http_result list
    \<Rightarrow> (sign_result \<times> int list) option" where
  "requestSignature P cfg fid rs = requestSignature_from P cfg fid 10 rs"


section \<open>Pipeline orchestrator\<close>

text \<open>A scored entry, as returned by the callback of \<^verbatim>\<open>fids.map\<close> (lines 146 to 156).\<close>

record meta =
  fid :: string
  score :: number
  summary :: string
  jsonPath :: string
  pngPath :: string
  data :: json

definition scored_entry :: "platform \<Rightarrow> string \<Rightarrow> gen_result \<Rightarrow> error + meta" where
  "scored_entry P ident res =
     (case rarityScore P (gen_data res) of
        Inl e \<Rightarrow> Inl e
      | Inr sc \<Rightarrow>
        (case traitsSummary P (gen_data res) of
           Inl e \<Rightarrow> Inl e
         | Inr sm \<Rightarrow>
             Inr \<lparr> fid = ident, score = sc, summary = sm,
                   jsonPath = gen_jsonPath res,
                   pngPath = (case gen_pngPath res of None \<Rightarrow> '''' | Some p \<Rightarrow> p),
                   data = gen_data res \<rparr>))"

text \<open>
  One task of the generate phase. The run goes on to the index only when every task
  has returned a value: a task whose loop does not return, or that throws, is \<open>None\<close>.
\<close>

definition generate_task :: "platform \<Rightarrow> config \<Rightarrow> string \<Rightarrow> http_result list \<Rightarrow> meta option" where
  "generate_task P cfg ident rs =
     (case generateMeta P cfg ident rs of
        None \<Rightarrow> None
      | Some (res, delays) \<Rightarrow>
          (case scored_entry P ident res of Inl e \<Rightarrow> None | Inr m \<Rightarrow> Some m))"

text \<open>\<^verbatim>\<open>await Promise.all(xs.map(x => limit(task)))\<close>: the results in the order of
  \<open>xs\<close>, once every task has one. The task at position \<open>i\<close> gets the position too,
  to read its share of the environment.\<close>

fun promise_all :: "(nat \<Rightarrow> 'a \<Rightarrow> 'b option) \<Rightarrow> nat \<Rightarrow> 'a list \<Rightarrow> 'b list option" where
  "promise_all task i [] = Some []"
| "promise_all task i (x # xs) =
     (case task i x of
        None \<Rightarrow> None
      | Some y \<Rightarrow> (case promise_all task (Suc i) xs of None \<Rightarrow> None | Some ys \<Rightarrow> Some (y # ys)))"

text \<open>
  The environment of a run: what the passes of the \<open>i\<close>-th generate task and of the
  \<open>i\<close>-th signature task meet, and \<open>sort_choice\<close>, the order (a list of positions)
  in which the engine leaves a list of entries that it sorts when a score is \<^verbatim>\<open>NaN\<close>.
\<close>

record world =
  gen_world :: "nat \<Rightarrow> http_result list"
  sign_world :: "nat \<Rightarrow> http_result list"
  sort_choice :: "meta list \<Rightarrow> nat list"

text \<open>
  \<^verbatim>\<open>Array.prototype.sort\<close> with a comparator is a built-in of the language. A result of
  the comparator that is \<^verbatim>\<open>NaN\<close> counts as 0. Where the comparator orders the elements
  consistently the sort is stable: \<open>a\<close> stays before \<open>b\<close> unless the comparator is
  positive on them; this is modelled by a stable insertion sort, in which an element is
  put before the first element of the sorted rest that the comparator does not place
  before it. Otherwise the language leaves the order to the implementation: the result
  is some rearrangement of the list.
\<close>

fun insert_by :: "('a \<Rightarrow> 'a \<Rightarrow> cmp_result) \<Rightarrow> 'a \<Rightarrow> 'a list \<Rightarrow> 'a list" where
  "insert_by cmp a [] = [a]"
| "insert_by cmp a (b # bs) = (if cmp a b = CPos then b # insert_by cmp a bs else a # b # bs)"

definition array_sort :: "('a \<Rightarrow> 'a \<Rightarrow> cmp_result) \<Rightarrow> 'a list \<Rightarrow> 'a list" where
  "array_sort cmp xs = foldr (insert_by cmp) xs []"

definition rearrange :: "nat list \<Rightarrow> 'a list \<Rightarrow> 'a list" where
  "rearrange p xs = (if mset p = mset [0..<length xs] then map (\<lambda>i. xs ! i) p else xs)"

text \<open>
  \<^verbatim>\<open>metas.sort((a,b)=> b.score - a.score)\<close>. With no \<^verbatim>\<open>NaN\<close> among the scores the
  comparator orders the entries consistently (it is \<^verbatim>\<open>NaN\<close> on two equal infinities
  only, which then count as equal). With a \<^verbatim>\<open>NaN\<close> score it does not, in general, and
  the order is the engine's.
\<close>

definition sort_metas :: "world \<Rightarrow> meta list \<Rightarrow> meta list" where
  "sort_metas W metas =
     (if list_all (\<lambda>m. score m \<noteq> NaN) metas
      then array_sort (\<lambda>a b. diff_sign (score b) (score a)) metas
      else rearrange (sort_choice W metas) metas)"

text \<open>The rows of the index file, one record per \<^verbatim>\<open>stream.write\<close>, with the columns of
  the header.\<close>

record row =
  col_fid :: string
  col_rarityScore :: number
  col_traits :: string
  col_json :: string
  col_png :: string
  col_signature :: string
  col_sig_error :: string

definition initial_row :: "platform \<Rightarrow> meta \<Rightarrow> row" where
  "initial_row P m =
     \<lparr> col_fid = fid m, col_rarityScore = score m, col_traits = summary m,
       col_json = path_basename P (jsonPath m),
       col_png = (if pngPath m \<noteq> [] then path_basename P (pngPath m) else ''''),
       col_signature = '''', col_sig_error = '''' \<rparr>"

text \<open>\<^verbatim>\<open>xs.slice(0, end)\<close>: \<^verbatim>\<open>NaN\<close> counts as 0, a fraction is dropped, and a negative
  end counts from the end of the list.\<close>

definition slice0 :: "'a list \<Rightarrow> number \<Rightarrow> 'a list" where
  "slice0 xs e =
     (case e of
        NaN \<Rightarrow> []
      | PInf \<Rightarrow> xs
      | NInf \<Rightarrow> []
      | Num r \<Rightarrow>
          (let rel = (if r < 0 then \<lceil>r\<rceil> else \<lfloor>r\<rfloor>);
               len = int (length xs);
               final = (if rel < 0 then max (len + rel) 0 else min rel len)
           in take (nat final) xs))"

definition targets :: "config \<Rightarrow> meta list \<Rightarrow> meta list" where
  "targets cfg metas =
     (if ADDR cfg = [] then []
      else if RARE_ONLY cfg then
        slice0 (filter (\<lambda>m. num_ge (score m) (MIN_SCORE cfg)) metas) (TOP_K cfg)
      else metas)"

record sig_result =
  sr_fid :: string
  sr_ok :: bool
  sr_path :: string
  sr_error :: string

text \<open>One task of the signature phase (lines 197 to 200); the result of
  \<^verbatim>\<open>requestSignature\<close> has no \<^verbatim>\<open>error\<close> property.\<close>

definition sign_task :: "platform \<Rightarrow> config \<Rightarrow> meta \<Rightarrow> http_result list \<Rightarrow> sig_result option" where
  "sign_task P cfg m rs =
     (case requestSignature P cfg (fid m) rs of
        None \<Rightarrow> None
      | Some (r, delays) \<Rightarrow>
          Some \<lparr> sr_fid = fid m, sr_ok = sign_ok r, sr_path = sign_path r,
                 sr_error = (if sign_ok r then '''' else ''unknown'') \<rparr>)"

text \<open>\<^verbatim>\<open>new Map(sigResults.map(s => [s.fid, s]))\<close>: a later entry replaces an earlier
  one with the same key.\<close>

definition sigMap :: "sig_result list \<Rightarrow> (string \<rightharpoonup> sig_result)" where
  "sigMap sigResults = foldl (\<lambda>mp s. mp(sr_fid s \<mapsto> s)) Map.empty sigResults"

definition final_row :: "platform \<Rightarrow> config \<Rightarrow> (string \<rightharpoonup> sig_result) \<Rightarrow> meta \<Rightarrow> row" where
  "final_row P cfg mp m =
     \<lparr> col_fid = fid m, col_rarityScore = score m, col_traits = summary m,
       col_json = path_basename P (jsonPath m),
       col_png = (if pngPath m \<noteq> [] then path_basename P (pngPath m) else ''''),
       col_signature =
         (case mp (fid m) of
            None \<Rightarrow> ''''
          | Some s \<Rightarrow> if sr_ok s then path_basename P (sr_path s) else ''''),
       col_sig_error =
         (let dflt = (if ADDR cfg \<noteq> [] then '''' else ''NO_WALLET'')
          in case mp (fid m) of
               None \<Rightarrow> dflt
             | Some s \<Rightarrow> if sr_error s \<noteq> [] then sr_error s else dflt) \<rparr>"

text \<open>
  The main program, on the content of the input file (\<open>None\<close> when the file is
  missing: the script exits before it writes anything). \<open>ranked_metas\<close> is the value of
  \<^verbatim>\<open>metas\<close> after the sort, \<open>first_index\<close> the rows of the first write of the index
  file and \<open>final_index\<close> the rows of the second write, which replaces the file. Each
  is \<open>None\<close> when the run does not get there.
\<close>

definition ranked_metas :: "platform \<Rightarrow> config \<Rightarrow> world \<Rightarrow> string option \<Rightarrow> meta list option" where
  "ranked_metas P cfg W infile =
     (case infile of
        None \<Rightarrow> None
      | Some content \<Rightarrow>
          (case promise_all (\<lambda>i ident. generate_task P cfg ident (gen_world W i)) 0
                  (read_fids content) of
             None \<Rightarrow> None
           | Some metas \<Rightarrow> Some (sort_metas W metas)))"

definition first_index :: "platform \<Rightarrow> config \<Rightarrow> world \<Rightarrow> string option \<Rightarrow> row list option" where
  "first_index P cfg W infile =
     (case ranked_metas P cfg W infile of
        None \<Rightarrow> None
      | Some metas \<Rightarrow> Some (map (initial_row P) metas))"

definition final_index :: "platform \<Rightarrow> config \<Rightarrow> world \<Rightarrow> string option \<Rightarrow> row list option" where
  "final_index P cfg W infile =
     (case ranked_metas P cfg W infile of
        None \<Rightarrow> None
      | Some metas \<Rightarrow>
          (case promise_all (\<lambda>i m. sign_task P cfg m (sign_world W i)) 0 (targets cfg metas) of
             None \<Rightarrow> None
           | Some sigResults \<Rightarrow> Some (map (final_row P cfg (sigMap sigResults)) metas)))"


section \<open>The scoring rule in the words of the specification\<close>

text \<open>
  The specification gives the score as a sum of one weight per normalized trait:
  \<open>- ln (percent / 100)\<close> when a numeric percent greater than 0 is known, else the
  trait's rarity number if known, else the flat weight \<open>0.5\<close>; the total is rounded to
  6 decimal places. \<open>spec_weight\<close> is that weight with the quotient and the logarithm as
  the doubles give them, and \<open>spec_rounded6 x y\<close> says that \<open>y\<close> is a multiple of
  \<open>10\<^sup>-\<^sup>6\<close> nearest to \<open>x\<close>.
\<close>

definition spec_fallback :: "trait \<Rightarrow> number" where
  "spec_fallback t = (case rarity t of JNum r \<Rightarrow> r | _ \<Rightarrow> Num 0.5)"

definition spec_weight :: "platform \<Rightarrow> trait \<Rightarrow> number" where
  "spec_weight P t =
     (case percent t of
        Some n \<Rightarrow>
          if num_gt n (Num 0) then num_neg (math_log P (div_100 P n)) else spec_fallback t
      | None \<Rightarrow> spec_fallback t)"

definition spec_rounded6 :: "real \<Rightarrow> real \<Rightarrow> bool" where
  "spec_rounded6 x y = ((\<exists>n::int. y = of_int n / 10 ^ 6) \<and> \<bar>y - x\<bar> \<le> 1 / (2 * 10 ^ 6))"


section \<open>Notions of the statements\<close>

text \<open>The non-blank lines of the input file, in order, a line being what
  \<^verbatim>\<open>split(/\r?\n/)\<close> cuts; and a row without its two signature columns.\<close>

definition nonblank_lines :: "string \<Rightarrow> string list" where
  "nonblank_lines content = filter (\<lambda>l. \<not> list_all is_space l) (split_lines '''' content)"

definition unsigned :: "row \<Rightarrow> row" where
  "unsigned r = r\<lparr> col_signature := '''', col_sig_error := '''' \<rparr>"


section \<open>Concrete inputs\<close>

text \<open>
  A platform, a configuration and entries to evaluate the model on. The platform
  computes exactly: an exact result that is a double is returned as it is, which is what
  Node does on every sum and quotient met below. \<^verbatim>\<open>Math.log\<close> is met off 0 and 1 at 2
  only, where Node returns the double nearest to \<open>ln 2\<close>, with the same sign and the
  same first six decimals, and the one decimal met that is not a double, \<open>-0.693147\<close>,
  stands for the double nearest to it. \<^verbatim>\<open>parseFloat\<close> of a text with no leading number
  is \<^verbatim>\<open>NaN\<close>, and the paths have no separator besides the one that \<^verbatim>\<open>path.join\<close>
  puts in.
\<close>

definition sample_platform :: platform where
  "sample_platform =
     \<lparr> round_double = Num,
       approx_ln = (\<lambda>x. Num (ln x)),
       parseFloat = (\<lambda>s. NaN),
       number_to_string = (\<lambda>n. case n of NaN \<Rightarrow> ''NaN'' | _ \<Rightarrow> ''''),
       template_string = (\<lambda>v. case v of JStr s \<Rightarrow> Inr s | _ \<Rightarrow> Inl TypeError),
       path_join = (\<lambda>a b. a @ ''/'' @ b),
       path_basename = (\<lambda>p. rev (takeWhile (\<lambda>c. c \<noteq> CHR ''/'') (rev p))),
       png_write_ok = (\<lambda>b64 out. True) \<rparr>"

text \<open>The same platform with underflow: an exact result that is less, in absolute value,
  than half the least positive double \<open>2\<^sup>-\<^sup>1\<^sup>0\<^sup>7\<^sup>4\<close> is rounded to 0, as the doubles
  do.\<close>

definition underflow_platform :: platform where
  "underflow_platform =
     sample_platform \<lparr> round_double := (\<lambda>x. if \<bar>x\<bar> < 1 / 2 ^ 1075 then Num 0 else Num x) \<rparr>"

definition sample_config :: "string \<Rightarrow> bool \<Rightarrow> config" where
  "sample_config addr rare =
     \<lparr> OUTDIR = ''out'', ADDR = addr, RARE_ONLY = rare, TOP_K = Num 2, MIN_SCORE = Num 2 \<rparr>"

definition sample_meta :: "string \<Rightarrow> number \<Rightarrow> meta" where
  "sample_meta ident sc =
     \<lparr> fid = ident, score = sc, summary = '''', jsonPath = ''out/warplet-'' @ ident @ ''.json'',
       pngPath = '''', data = JObj [(''rarityScore'', JNum sc)] \<rparr>"

text \<open>Payloads: three ordinary ones, and two of which the first has the rarities
  \<^verbatim>\<open>1e999\<close> and \<^verbatim>\<open>-1e999\<close>.\<close>

definition sample_payloads :: "json list" where
  "sample_payloads =
     [ JObj [(''attributes'', JArr [JObj [(''trait_type'', JStr ''hat''), (''value'', JStr ''red''),
                                          (''rarity'', JNum (Num 3))]])],
       JObj [(''rarityScore'', JNum (Num 5))],
       JObj [(''traits'', JArr [JObj [(''name'', JStr ''blue'')], JObj []])] ]"

definition overflow_payloads :: "json list" where
  "overflow_payloads =
     [ JObj [(''attributes'', JArr [JObj [(''value'', JStr ''a''), (''rarity'', JNum PInf)],
                                    JObj [(''value'', JStr ''b''), (''rarity'', JNum NInf)]])],
       JObj [(''rarityScore'', JNum (Num 1))] ]"

text \<open>A remote service that answers the \<open>i\<close>-th generate call with one of the given
  payloads after \<open>i\<close> failed passes, and a signature call on its second pass; and an
  engine that leaves the entries as they are when a score is \<^verbatim>\<open>NaN\<close>.\<close>

definition sample_world :: "json list \<Rightarrow> world" where
  "sample_world payloads =
     \<lparr> gen_world =
         (\<lambda>i. replicate i Thrown @ [Response 200 (payloads ! (i mod length payloads))]),
       sign_world =
         (\<lambda>i. [Response 500 JNull, Response 200 (JObj [(''signature'', JStr ''0x01'')])]),
       sort_choice = (\<lambda>metas. [0..<length metas]) \<rparr>"

text \<open>An input file: the identifier 7, a blank line, the identifier 8 with a leading
  space, and 7 again; the first line ends with a carriage return and a line feed. And
  one with the identifiers 1 and 2.\<close>

definition sample_infile :: string where
  "sample_infile =
     ''7'' @ [CHR 0x0D, CHR 0x0A] @ '' '' @ [CHR 0x0A] @ '' 8'' @ [CHR 0x0A] @ ''7'' @ [CHR 0x0A]"

definition short_infile :: string where
  "short_infile = ''1'' @ [CHR 0x0A] @ ''2''"


section \<open>Properties of the trait normalizer\<close>

lemma normalizeTraits_no_container:
  assumes "\<forall>xs. opt_prop d ''attributes'' \<noteq> Some (JArr xs)"
    and "\<forall>ys. opt_prop d ''traits'' \<noteq> Some (JArr ys)"
  shows "normalizeTraits P d = Inr []"
  using assms by (simp add: normalizeTraits_def raw_traits_def split: option.splits json.splits)

lemma map_traits_total:
  "JNull \<notin> set ts \<Longrightarrow> \<exists>rs. map_traits P ts = Inr rs \<and> length rs = length ts"
proof (induction ts)
  case Nil
  then show ?case by simp
next
  case (Cons t ts)
  then obtain rs where rs: "map_traits P ts = Inr rs" "length rs = length ts" by auto
  from Cons.prems have "t \<noteq> JNull" by auto
  then obtain r where "normalizeTrait P t = Inr r"
    by (cases t) (simp_all add: normalizeTrait_def Let_def)
  with rs show ?case by simp
qed

text \<open>
  \<^bold>\<open>C3\<close>. The claim: the trait normalizer is total; for every payload, trait arrays with
  entries of arbitrary shape included, it returns a list of trait records without
  failing. The code does not: the callback reads \<^verbatim>\<open>t.percent\<close> with no guard, so a
  \<^verbatim>\<open>null\<close> entry of the trait array makes \<^verbatim>\<open>normalizeTraits\<close> throw a TypeError. On the
  payload \<^verbatim>\<open>{"attributes": [null]}\<close>:
\<close>

theorem normalizeTraits_null_entry_throws:
  "normalizeTraits P (JObj [(''attributes'', JArr [JNull])]) = Inl TypeError"
  by (simp add: normalizeTraits_def raw_traits_def opt_prop_def normalizeTrait_def)

text \<open>
  \<^bold>\<open>C7\<close>. A payload that stores the trait array \<open>L\<close> under \<^verbatim>\<open>traits\<close> and has no
  \<^verbatim>\<open>attributes\<close> field is normalized exactly as a payload that stores \<open>L\<close> under
  \<^verbatim>\<open>attributes\<close>: the same list of trait records, or the same failure.
\<close>

theorem normalizeTraits_alternate_container:
  assumes "opt_prop d1 ''attributes'' = None"
    and "opt_prop d1 ''traits'' = Some (JArr L)"
    and "opt_prop d2 ''attributes'' = Some (JArr L)"
  shows "normalizeTraits P d1 = normalizeTraits P d2"
  using assms by (simp add: normalizeTraits_def raw_traits_def)

theorem normalizeTraits_alternate_container_witness:
  "opt_prop (JObj [(''traits'', JArr [JObj [(''name'', JStr ''blue''), (''frequency'', JNum (Num 25))]])])
      ''attributes'' = None \<and>
   normalizeTraits sample_platform
      (JObj [(''traits'', JArr [JObj [(''name'', JStr ''blue''), (''frequency'', JNum (Num 25))]])]) =
   normalizeTraits sample_platform
      (JObj [(''attributes'', JArr [JObj [(''name'', JStr ''blue''), (''frequency'', JNum (Num 25))]])]) \<and>
   normalizeTraits sample_platform
      (JObj [(''attributes'', JArr [JObj [(''name'', JStr ''blue''), (''frequency'', JNum (Num 25))]])]) =
   Inr [\<lparr> trait_type = JStr ''trait'', trait_value = JStr ''blue'', percent = Some (Num 25),
           rarity = JNull \<rparr>]"
  using normalizeTraits_alternate_container
    [of "JObj [(''traits'', JArr [JObj [(''name'', JStr ''blue''), (''frequency'', JNum (Num 25))]])]"
        "[JObj [(''name'', JStr ''blue''), (''frequency'', JNum (Num 25))]]"
        "JObj [(''attributes'', JArr [JObj [(''name'', JStr ''blue''), (''frequency'', JNum (Num 25))]])]"
        sample_platform]
  by (simp add: opt_prop_def normalizeTraits_def raw_traits_def normalizeTrait_def
      or_default_def nullish_def)

text \<open>
  \<^bold>\<open>C10\<close>. When both \<^verbatim>\<open>attributes\<close> and \<^verbatim>\<open>traits\<close> are arrays, the normalizer reads
  only \<^verbatim>\<open>attributes\<close>: two payloads with the same \<^verbatim>\<open>attributes\<close> array and any
  \<^verbatim>\<open>traits\<close> arrays have the same result, which is the map over \<^verbatim>\<open>attributes\<close>.
\<close>

theorem normalizeTraits_attributes_first:
  assumes "opt_prop d1 ''attributes'' = Some (JArr A)"
    and "opt_prop d1 ''traits'' = Some (JArr T1)"
    and "opt_prop d2 ''attributes'' = Some (JArr A)"
    and "opt_prop d2 ''traits'' = Some (JArr T2)"
  shows "normalizeTraits P d1 = normalizeTraits P d2 \<and> normalizeTraits P d1 = map_traits P A"
  using assms by (simp add: normalizeTraits_def raw_traits_def)

theorem normalizeTraits_attributes_first_witness:
  "normalizeTraits sample_platform
      (JObj [(''attributes'', JArr [JObj [(''type'', JStr ''hat'')]]),
             (''traits'', JArr [JObj [(''type'', JStr ''eyes'')], JNull])]) =
   normalizeTraits sample_platform
      (JObj [(''traits'', JArr []), (''attributes'', JArr [JObj [(''type'', JStr ''hat'')]])]) \<and>
   normalizeTraits sample_platform
      (JObj [(''attributes'', JArr [JObj [(''type'', JStr ''hat'')]]),
             (''traits'', JArr [JObj [(''type'', JStr ''eyes'')], JNull])]) =
   Inr [\<lparr> trait_type = JStr ''hat'', trait_value = JStr '''', percent = None, rarity = JNull \<rparr>]"
  using normalizeTraits_attributes_first
    [of "JObj [(''attributes'', JArr [JObj [(''type'', JStr ''hat'')]]),
               (''traits'', JArr [JObj [(''type'', JStr ''eyes'')], JNull])]"
        "[JObj [(''type'', JStr ''hat'')]]"
        "[JObj [(''type'', JStr ''eyes'')], JNull]"
        "JObj [(''traits'', JArr []), (''attributes'', JArr [JObj [(''type'', JStr ''hat'')]])]"
        "[]" sample_platform]
  by (simp add: opt_prop_def normalizeTraits_def raw_traits_def normalizeTrait_def
      or_default_def nullish_def)


section \<open>Properties of the rarity scorer\<close>

text \<open>A percent that is 0, negative or \<^verbatim>\<open>NaN\<close> is passed over: the loop body takes the
  rarity number, or the flat weight.\<close>

lemma score_step_percent_not_positive:
  assumes "percent t = Some n" and "\<not> num_gt n (Num 0)"
  shows "score_step P s t =
     (case rarity t of JNum r \<Rightarrow> num_add P s r | _ \<Rightarrow> num_add P s (Num 0.5))"
  using assms by (simp add: score_step_def)

lemma rarityScore_without_field:
  assumes "\<forall>r. opt_prop d ''rarityScore'' \<noteq> Some (JNum r)"
  shows "rarityScore P d =
     (case normalizeTraits P d of
        Inl e \<Rightarrow> Inl e
      | Inr ts \<Rightarrow> Inr (Number_toFixed6 P (score_loop P (Num 0) ts)))"
  using assms by (simp add: rarityScore_def split: option.splits json.splits)

lemma score_step_weight: "score_step P s t = num_add P s (spec_weight P t)"
  by (simp add: score_step_def spec_weight_def spec_fallback_def
      split: option.splits json.splits)

lemma score_loop_foldl: "score_loop P s ts = foldl (num_add P) s (map (spec_weight P) ts)"
  by (induction ts arbitrary: s) (simp_all add: score_step_weight)

lemma toFixed6_rounded: "spec_rounded6 x (toFixed6 x)"
proof -
  define n where "n = \<lfloor>\<bar>x\<bar> * 10 ^ 6 + 1 / 2\<rfloor>"
  have lo: "of_int n \<le> \<bar>x\<bar> * 10 ^ 6 + 1 / 2" and hi: "\<bar>x\<bar> * 10 ^ 6 + 1 / 2 < of_int n + 1"
    unfolding n_def by linarith+
  have tf: "toFixed6 x = sgn x * of_int n / 10 ^ 6"
    by (simp add: toFixed6_def n_def)
  have d: "\<bar>of_int n / 10 ^ 6 - \<bar>x\<bar>\<bar> \<le> 1 / (2 * 10 ^ 6)"
  proof -
    have "of_int n / 10 ^ 6 - \<bar>x\<bar> \<le> 1 / (2 * 10 ^ 6)"
      using lo by (simp add: field_simps)
    moreover have "- (1 / (2 * 10 ^ 6)) \<le> of_int n / 10 ^ 6 - \<bar>x\<bar>"
      using hi by (simp add: field_simps)
    ultimately show ?thesis by (intro abs_leI) linarith+
  qed
  show ?thesis
  proof (cases "x < 0")
    case True
    then have "toFixed6 x = of_int (- n) / 10 ^ 6" using tf by simp
    moreover have "\<bar>toFixed6 x - x\<bar> \<le> 1 / (2 * 10 ^ 6)"
      using True tf d by (simp add: abs_if split: if_splits)
    ultimately show ?thesis unfolding spec_rounded6_def by blast
  next
    case False
    show ?thesis
    proof (cases "x = 0")
      case True
      then show ?thesis by (auto simp: spec_rounded6_def toFixed6_def intro: exI[of _ 0])
    next
      case False
      with \<open>\<not> x < 0\<close> have pos: "x > 0" by simp
      then have "toFixed6 x = of_int n / 10 ^ 6" using tf by simp
      moreover have "\<bar>toFixed6 x - x\<bar> \<le> 1 / (2 * 10 ^ 6)"
        using pos tf d by (simp add: abs_if split: if_splits)
      ultimately show ?thesis unfolding spec_rounded6_def by blast
    qed
  qed
qed

text \<open>
  \<^bold>\<open>C1\<close>. The claim: for a payload with no top-level numeric \<^verbatim>\<open>rarityScore\<close> the score
  is the sum of the weights \<open>- ln (percent / 100)\<close>, rarity or 0.5, rounded to 6 decimal
  places. The code computes with doubles, and the result can be far from that sum: for
  the percent \<open>2\<^sup>-\<^sup>1\<^sup>0\<^sup>7\<^sup>3\<close> (the double that \<^verbatim>\<open>1e-323\<close> is read as), which is greater
  than 0, the quotient \<^verbatim>\<open>percent / 100\<close> underflows to 0, \<^verbatim>\<open>Math.log(0)\<close> is
  \<^verbatim>\<open>-Infinity\<close> and the score is \<^verbatim>\<open>Infinity\<close>, where the sum of the claim is the finite
  number \<open>- ln (2\<^sup>-\<^sup>1\<^sup>0\<^sup>7\<^sup>3 / 100)\<close>.
\<close>

theorem rarityScore_underflow_counterexample:
  "rarityScore underflow_platform
      (JObj [(''attributes'', JArr [JObj [(''percent'', JNum (Num (1 / 2 ^ 1073)))]])])
     = Inr PInf \<and>
   num_gt (Num (1 / 2 ^ 1073)) (Num 0) \<and>
   PInf \<noteq> Num (toFixed6 (- ln (1 / 2 ^ 1073 / 100)))"
proof -
  have "(2::real) ^ 1075 = 4 * 2 ^ 1073" by simp
  then have "(1::real) / 2 ^ 1073 / 100 < 1 / 2 ^ 1075"
    by (simp add: field_simps)
  then have "round_double underflow_platform (1 / 2 ^ 1073 / 100) = Num 0"
    by (simp add: underflow_platform_def)
  then have "div_100 underflow_platform (Num (1 / 2 ^ 1073)) = Num 0" by simp
  then show ?thesis
    by (simp add: rarityScore_def opt_prop_def normalizeTraits_def raw_traits_def
        normalizeTrait_def or_default_def nullish_def score_step_def)
qed

text \<open>
  \<^bold>\<open>C1\<close>, amended. For a payload with no top-level numeric \<^verbatim>\<open>rarityScore\<close>, the scorer
  fails exactly when the normalizer does, and otherwise returns
  \<^verbatim>\<open>Number(total.toFixed(6))\<close>, where the total is the sum in double arithmetic, taken
  from 0 in the order of the normalized traits, of the weights: \<^verbatim>\<open>-Math.log(percent / 100)\<close>
  as the doubles give it when the percent is a number greater than 0 (so \<^verbatim>\<open>Infinity\<close>
  when the quotient underflows to 0), else the rarity number when the rarity is a
  number, else 0.5; a percent that is 0, negative or \<^verbatim>\<open>NaN\<close> falls through to the
  rarity and default branches. For a finite total below \<open>10\<^sup>2\<^sup>1\<close> in absolute value the
  score is the double nearest to the total rounded to 6 decimal places.
\<close>

theorem rarityScore_sum_of_weights:
  assumes "\<forall>r. opt_prop d ''rarityScore'' \<noteq> Some (JNum r)"
  shows "case normalizeTraits P d of
           Inl e \<Rightarrow> rarityScore P d = Inl e
         | Inr ts \<Rightarrow>
             rarityScore P d =
               Inr (Number_toFixed6 P (foldl (num_add P) (Num 0) (map (spec_weight P) ts))) \<and>
             (\<forall>x. foldl (num_add P) (Num 0) (map (spec_weight P) ts) = Num x \<longrightarrow>
                  \<bar>x\<bar> < 10 ^ 21 \<longrightarrow>
                  (\<exists>y. spec_rounded6 x y \<and> rarityScore P d = Inr (round_double P y)))"
proof (cases "normalizeTraits P d")
  case (Inl e)
  with rarityScore_without_field[OF assms, of P] show ?thesis by simp
next
  case (Inr ts)
  with rarityScore_without_field[OF assms, of P]
  have r: "rarityScore P d =
      Inr (Number_toFixed6 P (foldl (num_add P) (Num 0) (map (spec_weight P) ts)))"
    by (simp add: score_loop_foldl)
  have "\<exists>y. spec_rounded6 x y \<and> rarityScore P d = Inr (round_double P y)"
    if "foldl (num_add P) (Num 0) (map (spec_weight P) ts) = Num x" and "\<bar>x\<bar> < 10 ^ 21" for x
  proof -
    from r that have "rarityScore P d = Inr (round_double P (toFixed6 x))" by simp
    then show ?thesis using toFixed6_rounded by blast
  qed
  with r Inr show ?thesis by simp
qed

theorem rarityScore_sum_of_weights_witness:
  "(\<forall>r. opt_prop (JObj [(''attributes'', JArr
        [JObj [(''percent'', JNum (Num 0)), (''rarity'', JNum (Num 2))],
         JObj [(''percentage'', JNum (Num (- 5)))],
         JObj [(''frequency'', JNum (Num 100))],
         JObj [(''percent'', JStr ''abc%'')]])]) ''rarityScore'' \<noteq> Some (JNum r)) \<and>
   rarityScore sample_platform (JObj [(''attributes'', JArr
        [JObj [(''percent'', JNum (Num 0)), (''rarity'', JNum (Num 2))],
         JObj [(''percentage'', JNum (Num (- 5)))],
         JObj [(''frequency'', JNum (Num 100))],
         JObj [(''percent'', JStr ''abc%'')]])]) = Inr (Num 3)"
  using rarityScore_sum_of_weights
    [of "JObj [(''attributes'', JArr
        [JObj [(''percent'', JNum (Num 0)), (''rarity'', JNum (Num 2))],
         JObj [(''percentage'', JNum (Num (- 5)))],
         JObj [(''frequency'', JNum (Num 100))],
         JObj [(''percent'', JStr ''abc%'')]])]" sample_platform]
  by (simp add: opt_prop_def normalizeTraits_def raw_traits_def normalizeTrait_def
      or_default_def nullish_def endsWith_percent_def sample_platform_def spec_weight_def
      spec_fallback_def toFixed6_def)

lemma num_ge_0_iff: "num_ge a (Num 0) \<longleftrightarrow> a = PInf \<or> (\<exists>x. a = Num x \<and> 0 \<le> x)"
  by (cases a) (auto simp: num_ge_def)

lemma num_le_0_iff: "num_ge (Num 0) a \<longleftrightarrow> a = NInf \<or> (\<exists>x. a = Num x \<and> x \<le> 0)"
  by (cases a) (auto simp: num_ge_def)

lemma num_add_nonneg:
  assumes "\<forall>x. 0 \<le> x \<longrightarrow> num_ge (round_double P x) (Num 0)"
    and "num_ge a (Num 0)" and "num_ge b (Num 0)"
  shows "num_ge (num_add P a b) (Num 0)"
proof (cases a)
  case (Num x)
  note a = this
  show ?thesis
  proof (cases b)
    case (Num y)
    with a assms(2,3) have "0 \<le> x + y" by (simp add: num_ge_0_iff)
    with assms(1) have "num_ge (round_double P (x + y)) (Num 0)" by blast
    with a Num show ?thesis by simp
  qed (use a assms(3) in \<open>simp_all add: num_ge_0_iff\<close>)
next
  case PInf
  with assms(3) show ?thesis by (cases b) (simp_all add: num_ge_0_iff)
qed (use assms(2) in \<open>simp_all add: num_ge_0_iff\<close>)

lemma toFixed6_nonneg: "0 \<le> x \<Longrightarrow> 0 \<le> toFixed6 x"
  by (simp add: toFixed6_def sgn_if)

lemma Number_toFixed6_nonneg:
  assumes "\<forall>x. 0 \<le> x \<longrightarrow> num_ge (round_double P x) (Num 0)"
    and "num_ge a (Num 0)"
  shows "num_ge (Number_toFixed6 P a) (Num 0)"
proof (cases a)
  case (Num x)
  with assms(2) have "0 \<le> x" by (simp add: num_ge_0_iff)
  then have "num_ge (round_double P (toFixed6 x)) (Num 0)"
    using assms(1) toFixed6_nonneg by blast
  with Num \<open>0 \<le> x\<close> show ?thesis by (simp add: num_ge_0_iff)
qed (use assms(2) in \<open>simp_all add: num_ge_0_iff\<close>)

text \<open>The weight of a percent in the range from 0 to 100 is not negative, when rounding
  keeps a quotient in the range from 0 to 1 there and \<^verbatim>\<open>Math.log\<close> is not positive
  between 0 and 1.\<close>

lemma percent_weight_nonneg:
  assumes r0: "\<forall>x. 0 \<le> x \<longrightarrow> num_ge (round_double P x) (Num 0)"
    and r1: "\<forall>x. 0 \<le> x \<and> x \<le> 1 \<longrightarrow> num_ge (Num 1) (round_double P x)"
    and ln: "\<forall>x. 0 < x \<and> x < 1 \<longrightarrow> num_ge (Num 0) (approx_ln P x)"
    and pos: "num_gt n (Num 0)" and le: "num_ge (Num 100) n"
  shows "num_ge (num_neg (math_log P (div_100 P n))) (Num 0)"
proof -
  from pos le obtain q where n: "n = Num q" and q: "0 < q" "q \<le> 100"
    by (cases n) (auto simp: num_ge_def)
  have q': "0 \<le> q / 100 \<and> q / 100 \<le> 1" using q by simp
  from r0 q' have "num_ge (round_double P (q / 100)) (Num 0)" by blast
  moreover from r1 q' have "num_ge (Num 1) (round_double P (q / 100))" by blast
  ultimately obtain y where y: "round_double P (q / 100) = Num y" "0 \<le> y" "y \<le> 1"
    by (cases "round_double P (q / 100)") (auto simp: num_ge_def)
  show ?thesis
  proof (cases "y = 0 \<or> y = 1")
    case True
    then show ?thesis using n y by (auto simp: num_ge_def)
  next
    case False
    with y have "0 < y \<and> y < 1" by auto
    with ln have "num_ge (Num 0) (approx_ln P y)" by blast
    then have "num_ge (num_neg (approx_ln P y)) (Num 0)"
      by (auto simp: num_le_0_iff num_ge_0_iff)
    with False y n show ?thesis by simp
  qed
qed

lemma score_step_nonneg:
  assumes r0: "\<forall>x. 0 \<le> x \<longrightarrow> num_ge (round_double P x) (Num 0)"
    and r1: "\<forall>x. 0 \<le> x \<and> x \<le> 1 \<longrightarrow> num_ge (Num 1) (round_double P x)"
    and ln: "\<forall>x. 0 < x \<and> x < 1 \<longrightarrow> num_ge (Num 0) (approx_ln P x)"
    and p: "\<forall>n. percent t = Some n \<longrightarrow> num_gt n (Num 0) \<longrightarrow> num_ge (Num 100) n"
    and r: "\<forall>r. rarity t = JNum r \<longrightarrow> \<not> (\<exists>n. percent t = Some n \<and> num_gt n (Num 0))
              \<longrightarrow> num_ge r (Num 0)"
    and s: "num_ge s (Num 0)"
  shows "num_ge (score_step P s t) (Num 0)"
proof (cases "\<exists>n. percent t = Some n \<and> num_gt n (Num 0)")
  case True
  then obtain n where n: "percent t = Some n" "num_gt n (Num 0)" by blast
  with p have "num_ge (Num 100) n" by blast
  from percent_weight_nonneg[OF r0 r1 ln n(2) this] s n show ?thesis
    by (simp add: score_step_def num_add_nonneg[OF r0])
next
  case False
  have half: "num_ge (Num 0.5) (Num 0)" by (simp add: num_ge_def)
  have "score_step P s t =
      (case rarity t of JNum r \<Rightarrow> num_add P s r | _ \<Rightarrow> num_add P s (Num 0.5))"
    using False by (auto simp: score_step_def split: option.splits)
  then show ?thesis
    using r False s half by (auto simp: num_add_nonneg[OF r0] split: json.splits)
qed

lemma score_loop_nonneg:
  assumes r0: "\<forall>x. 0 \<le> x \<longrightarrow> num_ge (round_double P x) (Num 0)"
    and r1: "\<forall>x. 0 \<le> x \<and> x \<le> 1 \<longrightarrow> num_ge (Num 1) (round_double P x)"
    and ln: "\<forall>x. 0 < x \<and> x < 1 \<longrightarrow> num_ge (Num 0) (approx_ln P x)"
    and ts: "\<forall>t \<in> set ts.
        (\<forall>n. percent t = Some n \<longrightarrow> num_gt n (Num 0) \<longrightarrow> num_ge (Num 100) n) \<and>
        (\<forall>r. rarity t = JNum r \<longrightarrow> \<not> (\<exists>n. percent t = Some n \<and> num_gt n (Num 0))
              \<longrightarrow> num_ge r (Num 0))"
    and s: "num_ge s (Num 0)"
  shows "num_ge (score_loop P s ts) (Num 0)"
  using ts s
proof (induction ts arbitrary: s)
  case Nil
  then show ?case by simp
next
  case (Cons t ts)
  have "num_ge (score_step P s t) (Num 0)"
    using Cons.prems by (intro score_step_nonneg[OF r0 r1 ln]) auto
  then show ?case using Cons by simp
qed

lemma toFixed6_negative:
  assumes "x \<le> - (1 / 2)"
  shows "toFixed6 x < 0"
proof -
  have "1 \<le> \<bar>x\<bar> * 10 ^ 6 + 1 / 2" using assms by simp
  then have "1 \<le> \<lfloor>\<bar>x\<bar> * 10 ^ 6 + 1 / 2\<rfloor>" by linarith
  then have "0 < real_of_int \<lfloor>\<bar>x\<bar> * 10 ^ 6 + 1 / 2\<rfloor>" by linarith
  moreover have "sgn x = - 1" using assms by simp
  ultimately show ?thesis by (simp add: toFixed6_def del: of_int_floor_cancel)
qed

lemma ln_2_bounds: "1 / 2 \<le> ln (2::real) \<and> ln (2::real) < 1"
proof -
  have "ln (1 / 2 :: real) \<le> 1 / 2 - 1" by (rule ln_le_minus_one) simp
  moreover have "ln (1 / 2 :: real) = - ln 2" by (simp add: ln_div)
  ultimately show ?thesis using ln_2_less_1 by simp
qed

text \<open>
  \<^bold>\<open>C2\<close>. The claim: the score is non-negative for every payload. It is not: a negative
  top-level \<^verbatim>\<open>rarityScore\<close> is returned as it is, and in the summing branch a negative
  rarity number or a percent above 100 gives a negative sum.
\<close>

theorem rarityScore_negative_counterexample:
  "rarityScore sample_platform (JObj [(''rarityScore'', JNum (Num (- 5)))]) = Inr (Num (- 5)) \<and>
   rarityScore sample_platform
      (JObj [(''attributes'', JArr [JObj [(''rarity'', JNum (Num (- 3)))]])]) = Inr (Num (- 3)) \<and>
   rarityScore sample_platform
      (JObj [(''attributes'', JArr [JObj [(''percent'', JNum (Num 200))]])])
     = Inr (Num (toFixed6 (- ln 2))) \<and>
   toFixed6 (- ln 2) < 0"
proof -
  have neg: "toFixed6 (- ln 2) < 0"
    using ln_2_bounds by (intro toFixed6_negative) simp
  have small: "\<not> 10 ^ 21 \<le> \<bar>ln (2::real)\<bar>"
    using ln_2_bounds by simp
  have "toFixed6 (- 3) = - 3" by (simp add: toFixed6_def)
  with neg small show ?thesis
    by (simp add: rarityScore_def opt_prop_def normalizeTraits_def raw_traits_def
        normalizeTrait_def or_default_def nullish_def score_step_def sample_platform_def)
qed

text \<open>
  \<^bold>\<open>C2\<close>, amended. The score that the scorer returns is non-negative (at least 0, or
  \<^verbatim>\<open>Infinity\<close>) when a top-level numeric \<^verbatim>\<open>rarityScore\<close>, if the payload has one, is
  non-negative, and otherwise every normalized trait has a percent of at most 100 when
  its percent is a number greater than 0, and a non-negative rarity when it is scored by
  its rarity number. This holds in every arithmetic of doubles in which rounding takes a
  non-negative result to a non-negative one and a result between 0 and 1 to one of at
  most 1, and \<^verbatim>\<open>Math.log\<close> is not positive between 0 and 1.
\<close>

theorem rarityScore_nonneg:
  assumes "\<forall>x. 0 \<le> x \<longrightarrow> num_ge (round_double P x) (Num 0)"
    and "\<forall>x. 0 \<le> x \<and> x \<le> 1 \<longrightarrow> num_ge (Num 1) (round_double P x)"
    and "\<forall>x. 0 < x \<and> x < 1 \<longrightarrow> num_ge (Num 0) (approx_ln P x)"
    and "rarityScore P d = Inr s"
    and "\<forall>r. opt_prop d ''rarityScore'' = Some (JNum r) \<longrightarrow> num_ge r (Num 0)"
    and "(\<forall>r. opt_prop d ''rarityScore'' \<noteq> Some (JNum r)) \<longrightarrow>
         (\<forall>ts. normalizeTraits P d = Inr ts \<longrightarrow>
           (\<forall>t \<in> set ts.
              (\<forall>n. percent t = Some n \<longrightarrow> num_gt n (Num 0) \<longrightarrow> num_ge (Num 100) n) \<and>
              (\<forall>r. rarity t = JNum r \<longrightarrow> \<not> (\<exists>n. percent t = Some n \<and> num_gt n (Num 0))
                    \<longrightarrow> num_ge r (Num 0))))"
  shows "num_ge s (Num 0)"
proof (cases "\<exists>r. opt_prop d ''rarityScore'' = Some (JNum r)")
  case True
  then obtain r where r: "opt_prop d ''rarityScore'' = Some (JNum r)" by blast
  then have "s = r" using assms(4) by (simp add: rarityScore_def)
  then show ?thesis using assms(5) r by simp
next
  case False
  then have none: "\<forall>r. opt_prop d ''rarityScore'' \<noteq> Some (JNum r)" by simp
  from rarityScore_without_field[OF none, of P] assms(4)
  obtain ts where ts: "normalizeTraits P d = Inr ts"
    and s: "s = Number_toFixed6 P (score_loop P (Num 0) ts)"
    by (auto split: sum.splits)
  have cond: "\<forall>t \<in> set ts.
        (\<forall>n. percent t = Some n \<longrightarrow> num_gt n (Num 0) \<longrightarrow> num_ge (Num 100) n) \<and>
        (\<forall>r. rarity t = JNum r \<longrightarrow> \<not> (\<exists>n. percent t = Some n \<and> num_gt n (Num 0))
              \<longrightarrow> num_ge r (Num 0))"
    using assms(6) none ts by blast
  have "num_ge (Num 0) (Num 0)" by (simp add: num_ge_def)
  then have "num_ge (score_loop P (Num 0) ts) (Num 0)"
    by (rule score_loop_nonneg[OF assms(1) assms(2) assms(3) cond])
  then show ?thesis unfolding s by (rule Number_toFixed6_nonneg[OF assms(1)])
qed

theorem rarityScore_nonneg_witness:
  "rarityScore sample_platform
      (JObj [(''rarityScore'', JNum (Num 5)),
             (''attributes'', JArr [JObj [(''rarity'', JNum (Num (- 3)))]])]) = Inr (Num 5) \<and>
   num_ge (Num 5) (Num 0) \<and>
   rarityScore sample_platform
      (JObj [(''attributes'', JArr [JObj [(''rarity'', JNum (Num 3))],
                                    JObj [(''percent'', JNum (Num 100))]])]) = Inr (Num 3) \<and>
   num_ge (Num 3) (Num 0)"
proof -
  have r0: "\<forall>x. 0 \<le> x \<longrightarrow> num_ge (round_double sample_platform x) (Num 0)"
    and r1: "\<forall>x. 0 \<le> x \<and> x \<le> 1 \<longrightarrow> num_ge (Num 1) (round_double sample_platform x)"
    and ln: "\<forall>x. 0 < x \<and> x < 1 \<longrightarrow> num_ge (Num 0) (approx_ln sample_platform x)"
    by (auto simp: sample_platform_def num_ge_def)
  have a: "rarityScore sample_platform
      (JObj [(''rarityScore'', JNum (Num 5)),
             (''attributes'', JArr [JObj [(''rarity'', JNum (Num (- 3)))]])]) = Inr (Num 5)"
    by (simp add: rarityScore_def opt_prop_def)
  have b: "rarityScore sample_platform
      (JObj [(''attributes'', JArr [JObj [(''rarity'', JNum (Num 3))],
                                    JObj [(''percent'', JNum (Num 100))]])]) = Inr (Num 3)"
    by (simp add: rarityScore_def opt_prop_def normalizeTraits_def raw_traits_def
        normalizeTrait_def or_default_def nullish_def score_step_def toFixed6_def
        sample_platform_def)
  have "num_ge (Num 5) (Num 0)"
    by (rule rarityScore_nonneg[OF r0 r1 ln a]) (simp_all add: opt_prop_def num_ge_def)
  moreover have "num_ge (Num 3) (Num 0)"
    by (rule rarityScore_nonneg[OF r0 r1 ln b])
      (simp_all add: opt_prop_def normalizeTraits_def raw_traits_def normalizeTrait_def
        or_default_def nullish_def num_ge_def)
  ultimately show ?thesis using a b by simp
qed


section \<open>Properties of the retry loops\<close>

lemma generate_backoff_cap: "generate_backoff b = 50"
  by (simp add: generate_backoff_def maxBack_def)

lemma sign_backoff_cap: "sign_backoff b = 50"
  by (simp add: sign_backoff_def maxBack_def)

lemma generateMeta_from_delays:
  "generateMeta_from P cfg f b rs = Some (res, ds) \<Longrightarrow> \<forall>d \<in> set ds. d = 50"
proof (induction rs arbitrary: b ds)
  case Nil
  then show ?case by simp
next
  case (Cons r rs)
  show ?case
  proof (cases "succeeded r")
    case None
    with Cons.prems obtain ds' where
      "generateMeta_from P cfg f 50 rs = Some (res, ds')" and "ds = 50 # ds'"
      by (auto simp: generate_backoff_cap split: option.splits)
    with Cons.IH show ?thesis by auto
  next
    case (Some body)
    with Cons.prems show ?thesis by simp
  qed
qed

lemma requestSignature_from_delays:
  "requestSignature_from P cfg f b rs = Some (res, ds) \<Longrightarrow> \<forall>d \<in> set ds. d = 50"
proof (induction rs arbitrary: b ds)
  case Nil
  then show ?case by simp
next
  case (Cons r rs)
  show ?case
  proof (cases "succeeded r")
    case None
    with Cons.prems obtain ds' where
      "requestSignature_from P cfg f 50 rs = Some (res, ds')" and "ds = 50 # ds'"
      by (auto simp: sign_backoff_cap split: option.splits)
    with Cons.IH show ?thesis by auto
  next
    case (Some body)
    with Cons.prems show ?thesis by simp
  qed
qed

text \<open>
  \<^bold>\<open>C4\<close>. The claim: after every failed attempt the backoff is clamped to the floor
  (500 ms for generate, 800 ms for sign) and never to the cap. The code computes
  \<^verbatim>\<open>Math.min(maxBack, Math.max(floor, ...))\<close> with \<^verbatim>\<open>maxBack = 50\<close>: the inner maximum is
  at least the floor, so the outer minimum is the cap. From the initial backoff 10:
\<close>

theorem backoff_floor_counterexample:
  "generate_backoff 10 = 50 \<and> generate_backoff 10 \<noteq> 500 \<and>
   sign_backoff 10 = 50 \<and> sign_backoff 10 \<noteq> 800"
  by (simp add: generate_backoff_def sign_backoff_def maxBack_def)

text \<open>
  \<^bold>\<open>C4\<close>, amended. In both retry loops the backoff computed after a failed attempt is the
  cap, 50 ms, whatever the previous backoff, and never the floor: every delay that
  \<^verbatim>\<open>generateMeta\<close> and \<^verbatim>\<open>requestSignature\<close> hand to the jitter is 50.
\<close>

theorem backoff_always_cap:
  "generate_backoff b = maxBack \<and> sign_backoff b = maxBack \<and> maxBack = 50 \<and>
   (generateMeta P cfg f rs = Some (res, ds) \<longrightarrow> (\<forall>d \<in> set ds. d = 50)) \<and>
   (requestSignature P cfg f rs = Some (sres, sds) \<longrightarrow> (\<forall>d \<in> set sds. d = 50))"
  using generateMeta_from_delays[of P cfg f 10 rs res ds]
    requestSignature_from_delays[of P cfg f 10 rs sres sds]
  by (simp add: generateMeta_def requestSignature_def generate_backoff_cap sign_backoff_cap
      maxBack_def)

theorem backoff_always_cap_witness:
  "generateMeta sample_platform (sample_config '''' False) ''7''
      [Thrown, Response 500 JNull, Response 200 (JObj [])] =
     Some (\<lparr> gen_ok = True, gen_data = JObj [], gen_jsonPath = ''out/warplet-7.json'',
              gen_pngPath = None \<rparr>, [50, 50]) \<and>
   requestSignature sample_platform (sample_config '''' False) ''7''
      [Response 200 (JStr ''''), Response 200 (JObj [])] =
     Some (\<lparr> sign_ok = True, sign_data = JObj [], sign_path = ''out/sign-7.json'' \<rparr>, [50]) \<and>
   generate_backoff 10 = 50 \<and> sign_backoff 10 = 50"
  using backoff_always_cap [of 10 sample_platform "sample_config '''' False" "''7''"
      "[Thrown, Response 500 JNull, Response 200 (JObj [])]"
      "\<lparr> gen_ok = True, gen_data = JObj [], gen_jsonPath = ''out/warplet-7.json'',
         gen_pngPath = None \<rparr>" "[50, 50]"]
  by (simp add: generateMeta_def requestSignature_def succeeded_def generate_backoff_def
      sign_backoff_def maxBack_def sample_platform_def sample_config_def maybeSavePng_def
      or_else_def opt_prop_def)


section \<open>Properties of the ranking\<close>

lemma mset_insert_by: "mset (insert_by cmp a bs) = add_mset a (mset bs)"
  by (induction bs) auto

lemma mset_array_sort: "mset (array_sort cmp xs) = mset xs"
  by (induction xs) (auto simp: array_sort_def mset_insert_by)

lemma mset_rearrange: "mset (rearrange p xs) = mset xs"
proof (cases "mset p = mset [0..<length xs]")
  case True
  have "mset (map (\<lambda>i. xs ! i) p) = image_mset (\<lambda>i. xs ! i) (mset p)" by simp
  also have "\<dots> = image_mset (\<lambda>i. xs ! i) (mset [0..<length xs])" using True by simp
  also have "\<dots> = mset (map (\<lambda>i. xs ! i) [0..<length xs])" by simp
  also have "\<dots> = mset xs" by (simp only: map_nth)
  finally show ?thesis using True by (simp add: rearrange_def)
next
  case False
  then show ?thesis by (simp add: rearrange_def)
qed

lemma mset_sort_metas: "mset (sort_metas W ms) = mset ms"
  by (simp add: sort_metas_def mset_array_sort mset_rearrange)

lemma set_insert_by: "set (insert_by cmp a bs) = insert a (set bs)"
  by (induction bs) auto

lemma diff_sign_not_positive:
  "a \<noteq> NaN \<Longrightarrow> b \<noteq> NaN \<Longrightarrow> diff_sign b a \<noteq> CPos \<Longrightarrow> num_ge a b"
  by (cases a; cases b) (auto simp: num_ge_def split: if_splits)

lemma diff_sign_positive: "diff_sign b a = CPos \<Longrightarrow> num_ge b a \<and> b \<noteq> a"
  by (cases a; cases b) (auto simp: num_ge_def split: if_splits)

lemma num_ge_trans: "num_ge a b \<Longrightarrow> num_ge b c \<Longrightarrow> num_ge a c"
  by (cases a; cases b; cases c) (auto simp: num_ge_def)

lemma descending_insert_by:
  assumes "score a \<noteq> NaN" and "\<forall>b \<in> set bs. score b \<noteq> NaN"
    and "sorted_wrt (\<lambda>a b. num_ge (score a) (score b)) bs"
  shows "sorted_wrt (\<lambda>a b. num_ge (score a) (score b))
           (insert_by (\<lambda>a b. diff_sign (score b) (score a)) a bs)"
  using assms(2,3)
proof (induction bs)
  case Nil
  then show ?case by simp
next
  case (Cons b bs)
  show ?case
  proof (cases "diff_sign (score b) (score a) = CPos")
    case True
    then have "num_ge (score b) (score a)" by (simp add: diff_sign_positive)
    with True Cons show ?thesis by (auto simp: set_insert_by)
  next
    case False
    with assms(1) Cons.prems(1) have ab: "num_ge (score a) (score b)"
      by (auto intro: diff_sign_not_positive)
    then have "\<forall>c \<in> set bs. num_ge (score a) (score c)"
      using Cons.prems(2) by (auto intro: num_ge_trans)
    with False ab Cons.prems(2) show ?thesis by simp
  qed
qed

lemma descending_array_sort:
  "\<forall>m \<in> set ms. score m \<noteq> NaN \<Longrightarrow>
   sorted_wrt (\<lambda>a b. num_ge (score a) (score b))
     (array_sort (\<lambda>a b. diff_sign (score b) (score a)) ms)"
proof (induction ms)
  case Nil
  then show ?case by (simp add: array_sort_def)
next
  case (Cons m ms)
  have "\<forall>b \<in> set (array_sort (\<lambda>a b. diff_sign (score b) (score a)) ms). score b \<noteq> NaN"
    using Cons.prems by (metis mset_array_sort set_mset_mset list.set_intros(2))
  with Cons show ?case
    by (simp add: array_sort_def descending_insert_by)
qed

text \<open>Inserting \<open>a\<close> passes over entries with a greater score only, so among the
  entries of one score \<open>a\<close> comes first, as it did before the sort.\<close>

lemma filter_insert_by:
  "filter (\<lambda>m. score m = s) (insert_by (\<lambda>a b. diff_sign (score b) (score a)) a bs) =
   (if score a = s then a # filter (\<lambda>m. score m = s) bs else filter (\<lambda>m. score m = s) bs)"
  by (induction bs) (auto dest: diff_sign_positive)

lemma stable_array_sort:
  "filter (\<lambda>m. score m = s) (array_sort (\<lambda>a b. diff_sign (score b) (score a)) ms) =
   filter (\<lambda>m. score m = s) ms"
  by (induction ms) (auto simp: array_sort_def filter_insert_by)

lemma sort_metas_3551:
  assumes "map score ms = [Num 3, Num 5, Num 5, Num 1]"
  shows "\<exists>a b c d. ms = [a, b, c, d] \<and> sort_metas W ms = [b, c, a, d]"
proof -
  from assms obtain a b c d where ms: "ms = [a, b, c, d]"
    by (auto simp: map_eq_Cons_conv)
  with assms have "score a = Num 3" "score b = Num 5" "score c = Num 5" "score d = Num 1"
    by simp_all
  then have "sort_metas W [a, b, c, d] = [b, c, a, d]"
    by (simp add: sort_metas_def array_sort_def)
  with ms show ?thesis by blast
qed

text \<open>
  \<^bold>\<open>C5\<close>. The claim: for every list of scored entries the ranked list is ordered by score
  descending. It is not when a score is \<^verbatim>\<open>NaN\<close>, which the scorer returns on a payload
  with the rarities \<^verbatim>\<open>1e999\<close> and \<^verbatim>\<open>-1e999\<close> (\<^verbatim>\<open>Infinity + -Infinity\<close>): the comparator
  \<^verbatim>\<open>b.score - a.score\<close> is then \<^verbatim>\<open>NaN\<close>, and a list with a \<^verbatim>\<open>NaN\<close> score and another
  score is descending in neither order.
\<close>

theorem ranking_nan_counterexample:
  "rarityScore sample_platform (overflow_payloads ! 0) = Inr NaN \<and>
   sort_metas (sample_world overflow_payloads) [sample_meta ''1'' NaN, sample_meta ''2'' (Num 1)]
     = [sample_meta ''1'' NaN, sample_meta ''2'' (Num 1)] \<and>
   \<not> sorted_wrt num_ge (map score [sample_meta ''1'' NaN, sample_meta ''2'' (Num 1)]) \<and>
   \<not> sorted_wrt num_ge (map score [sample_meta ''2'' (Num 1), sample_meta ''1'' NaN])"
  by (simp add: overflow_payloads_def rarityScore_def opt_prop_def normalizeTraits_def
      raw_traits_def normalizeTrait_def or_default_def nullish_def score_step_def
      sort_metas_def sample_meta_def sample_world_def rearrange_def num_ge_def)

text \<open>
  \<^bold>\<open>C5\<close>, amended. The ranking \<^verbatim>\<open>metas.sort((a,b)=> b.score - a.score)\<close> rearranges the
  entries, and for every list of scored entries none of whose scores is \<^verbatim>\<open>NaN\<close> it is a
  stable descending sort on the score: the ranked list is ordered by score descending
  and the entries of any one score keep their relative order. Entries with scores
  3, 5, 5, 1 and identifiers A, B, C, D are ranked B, C, A, D.
\<close>

theorem sort_metas_stable_descending:
  "mset (sort_metas W ms) = mset ms \<and>
   (list_all (\<lambda>m. score m \<noteq> NaN) ms \<longrightarrow>
      sorted_wrt num_ge (map score (sort_metas W ms)) \<and>
      (\<forall>s. filter (\<lambda>m. score m = s) (sort_metas W ms) = filter (\<lambda>m. score m = s) ms)) \<and>
   (map score ms = [Num 3, Num 5, Num 5, Num 1] \<and> map fid ms = [''A'', ''B'', ''C'', ''D'']
      \<longrightarrow> map fid (sort_metas W ms) = [''B'', ''C'', ''A'', ''D''])"
proof -
  have "sorted_wrt num_ge (map score (sort_metas W ms)) \<and>
      (\<forall>s. filter (\<lambda>m. score m = s) (sort_metas W ms) = filter (\<lambda>m. score m = s) ms)"
    if "list_all (\<lambda>m. score m \<noteq> NaN) ms"
  proof -
    from that have s: "sort_metas W ms = array_sort (\<lambda>a b. diff_sign (score b) (score a)) ms"
      by (simp add: sort_metas_def)
    from that have "\<forall>m \<in> set ms. score m \<noteq> NaN" by (simp add: list_all_iff)
    then have "sorted_wrt (\<lambda>a b. num_ge (score a) (score b)) (sort_metas W ms)"
      unfolding s by (rule descending_array_sort)
    then show ?thesis by (simp add: sorted_wrt_map s stable_array_sort)
  qed
  moreover have "map fid (sort_metas W ms) = [''B'', ''C'', ''A'', ''D'']"
    if "map score ms = [Num 3, Num 5, Num 5, Num 1]" and "map fid ms = [''A'', ''B'', ''C'', ''D'']"
    using sort_metas_3551[OF that(1), of W] that(2) by auto
  ultimately show ?thesis
    by (simp add: mset_sort_metas)
qed

theorem sort_metas_stable_descending_witness:
  "list_all (\<lambda>m. score m \<noteq> NaN)
     [sample_meta ''A'' (Num 3), sample_meta ''B'' (Num 5), sample_meta ''C'' (Num 5),
      sample_meta ''D'' (Num 1)] \<and>
   map fid (sort_metas (sample_world sample_payloads)
     [sample_meta ''A'' (Num 3), sample_meta ''B'' (Num 5), sample_meta ''C'' (Num 5),
      sample_meta ''D'' (Num 1)]) = [''B'', ''C'', ''A'', ''D''] \<and>
   sorted_wrt num_ge (map score (sort_metas (sample_world sample_payloads)
     [sample_meta ''A'' (Num 3), sample_meta ''B'' (Num 5), sample_meta ''C'' (Num 5),
      sample_meta ''D'' (Num 1)]))"
proof -
  let ?ms = "[sample_meta ''A'' (Num 3), sample_meta ''B'' (Num 5), sample_meta ''C'' (Num 5),
      sample_meta ''D'' (Num 1)]"
  have fin: "list_all (\<lambda>m. score m \<noteq> NaN) ?ms"
    and sc: "map score ?ms = [Num 3, Num 5, Num 5, Num 1]"
    and fd: "map fid ?ms = [''A'', ''B'', ''C'', ''D'']"
    by (simp_all add: sample_meta_def)
  from sort_metas_stable_descending [of "sample_world sample_payloads" ?ms] fin sc fd
  have "map fid (sort_metas (sample_world sample_payloads) ?ms) = [''B'', ''C'', ''A'', ''D''] \<and>
      sorted_wrt num_ge (map score (sort_metas (sample_world sample_payloads) ?ms))"
    by blast
  with fin show ?thesis by blast
qed


section \<open>Properties of the signature targets\<close>

lemma slice0_nat: "slice0 xs (Num (real k)) = take k xs"
  by (auto simp: slice0_def Let_def min_def)

text \<open>
  \<^bold>\<open>C6\<close>. With a wallet address configured and rare-only mode on, where \<^verbatim>\<open>TOP_K\<close> is a
  count \<open>k\<close> and \<^verbatim>\<open>MIN_SCORE\<close> a number \<open>t\<close>, the targets are the first \<open>k\<close> of the
  ranked entries whose score is at least \<open>t\<close>. With \<open>k = 2\<close>, \<open>t = 2\<close> and entries
  (A,5), (B,3), (C,1), (D,4) the targets are A, D.
\<close>

theorem targets_rare_only:
  assumes "ADDR cfg \<noteq> []" and "RARE_ONLY cfg"
    and "TOP_K cfg = Num (real k)" and "MIN_SCORE cfg = Num t"
  shows "targets cfg (sort_metas W ms) =
           take k (filter (\<lambda>m. num_ge (score m) (Num t)) (sort_metas W ms)) \<and>
    (k = 2 \<and> t = 2 \<and> map fid ms = [''A'', ''B'', ''C'', ''D''] \<and>
     map score ms = [Num 5, Num 3, Num 1, Num 4]
       \<longrightarrow> map fid (targets cfg (sort_metas W ms)) = [''A'', ''D''])"
proof -
  have eq: "targets cfg (sort_metas W ms) =
      take k (filter (\<lambda>m. num_ge (score m) (Num t)) (sort_metas W ms))"
    using assms by (simp add: targets_def slice0_nat)
  have "map fid (targets cfg (sort_metas W ms)) = [''A'', ''D'']"
    if "k = 2" "t = 2" "map fid ms = [''A'', ''B'', ''C'', ''D'']"
      "map score ms = [Num 5, Num 3, Num 1, Num 4]"
  proof -
    from that(4) obtain a b c d where ms: "ms = [a, b, c, d]"
      by (auto simp: map_eq_Cons_conv)
    with that(4) have sc: "score a = Num 5" "score b = Num 3" "score c = Num 1" "score d = Num 4"
      by simp_all
    then have "sort_metas W ms = [a, d, b, c]"
      by (simp add: ms sort_metas_def array_sort_def)
    then show ?thesis using eq that(1,2,3) ms sc by (simp add: num_ge_def)
  qed
  with eq show ?thesis by blast
qed

theorem targets_rare_only_witness:
  "ADDR (sample_config ''0xabc'' True) \<noteq> [] \<and> RARE_ONLY (sample_config ''0xabc'' True) \<and>
   TOP_K (sample_config ''0xabc'' True) = Num (real 2) \<and>
   MIN_SCORE (sample_config ''0xabc'' True) = Num 2 \<and>
   map fid (targets (sample_config ''0xabc'' True) (sort_metas (sample_world sample_payloads)
      [sample_meta ''A'' (Num 5), sample_meta ''B'' (Num 3), sample_meta ''C'' (Num 1),
       sample_meta ''D'' (Num 4)]))
     = [''A'', ''D'']"
proof -
  let ?ms = "[sample_meta ''A'' (Num 5), sample_meta ''B'' (Num 3), sample_meta ''C'' (Num 1),
       sample_meta ''D'' (Num 4)]"
  have cfg: "ADDR (sample_config ''0xabc'' True) \<noteq> []" "RARE_ONLY (sample_config ''0xabc'' True)"
    "TOP_K (sample_config ''0xabc'' True) = Num (real 2)"
    "MIN_SCORE (sample_config ''0xabc'' True) = Num 2"
    by (simp_all add: sample_config_def)
  have ms: "map fid ?ms = [''A'', ''B'', ''C'', ''D'']"
    "map score ?ms = [Num 5, Num 3, Num 1, Num 4]"
    by (simp_all add: sample_meta_def)
  from targets_rare_only [OF cfg, of "sample_world sample_payloads" ?ms] ms
  have "map fid (targets (sample_config ''0xabc'' True)
      (sort_metas (sample_world sample_payloads) ?ms)) = [''A'', ''D'']"
    by blast
  with cfg show ?thesis by blast
qed


section \<open>Properties of the index file\<close>

lemma promise_all_nth:
  assumes "promise_all task i xs = Some ys"
  shows "length ys = length xs \<and> (\<forall>j < length xs. task (i + j) (xs ! j) = Some (ys ! j))"
  using assms
proof (induction xs arbitrary: i ys)
  case Nil
  then show ?case by simp
next
  case (Cons x xs)
  then obtain y ys' where y: "task i x = Some y"
    and rest: "promise_all task (Suc i) xs = Some ys'" and ys: "ys = y # ys'"
    by (auto split: option.splits)
  from Cons.IH[OF rest] have len: "length ys' = length xs"
    and nth: "\<forall>j < length xs. task (Suc i + j) (xs ! j) = Some (ys' ! j)"
    by simp_all
  have "task (i + j) ((x # xs) ! j) = Some (ys ! j)" if "j < length (x # xs)" for j
  proof (cases j)
    case 0
    then show ?thesis using y ys by simp
  next
    case (Suc k)
    with that nth have "task (Suc i + k) (xs ! k) = Some (ys' ! k)" by simp
    with Suc ys show ?thesis by simp
  qed
  with len ys show ?case by simp
qed

lemma generate_task_fid: "generate_task P cfg ident rs = Some m \<Longrightarrow> fid m = ident"
  by (auto simp: generate_task_def scored_entry_def split: option.splits sum.splits)

text \<open>A line survives \<^verbatim>\<open>trim\<close> and \<^verbatim>\<open>filter(Boolean)\<close> exactly when it is not blank.\<close>

lemma trim_Nil_iff: "trim l = [] \<longleftrightarrow> list_all is_space l"
proof (cases "dropWhile is_space l")
  case Nil
  then have "list_all is_space l"
    by (simp only: dropWhile_eq_Nil_conv list_all_iff)
  moreover have "trim l = []" unfolding trim_def Nil by simp
  ultimately show ?thesis by simp
next
  case (Cons c cs)
  then have c: "\<not> is_space c"
    by (metis hd_dropWhile list.sel(1) list.distinct(1))
  have "c \<in> set (dropWhile is_space l)" using Cons by simp
  then have "c \<in> set l" by (rule set_dropWhileD)
  with c have "\<not> list_all is_space l" by (auto simp: list_all_iff)
  moreover have "trim l \<noteq> []"
    using Cons c by (auto simp: trim_def dropWhile_eq_Nil_conv)
  ultimately show ?thesis by simp
qed

lemma read_fids_nonblank: "read_fids content = map trim (nonblank_lines content)"
  by (simp add: read_fids_def nonblank_lines_def filter_map comp_def trim_Nil_iff)

text \<open>The ranked entries are a rearrangement of the entries that the generate tasks
  return, one task per non-blank line, each on its own line and its own responses.\<close>

lemma ranked_metas_entries:
  assumes "ranked_metas P cfg W (Some content) = Some metas"
  shows "\<exists>ms. length ms = length (nonblank_lines content) \<and>
     (\<forall>j < length ms. generate_task P cfg (trim (nonblank_lines content ! j)) (gen_world W j)
        = Some (ms ! j)) \<and>
     metas = sort_metas W ms"
proof -
  from assms obtain ms where
    ms: "promise_all (\<lambda>i ident. generate_task P cfg ident (gen_world W i)) 0 (read_fids content)
           = Some ms"
    and metas: "metas = sort_metas W ms"
    by (auto simp: ranked_metas_def split: option.splits)
  from promise_all_nth[OF ms]
  have len: "length ms = length (read_fids content)"
    and nth: "\<forall>j < length (read_fids content).
        generate_task P cfg (read_fids content ! j) (gen_world W j) = Some (ms ! j)"
    by simp_all
  from len have len': "length ms = length (nonblank_lines content)"
    by (simp add: read_fids_nonblank)
  have "generate_task P cfg (trim (nonblank_lines content ! j)) (gen_world W j) = Some (ms ! j)"
    if "j < length ms" for j
    using nth that len' by (simp add: read_fids_nonblank)
  with len' metas show ?thesis by blast
qed

lemma rows_of_metas:
  assumes "first_index P cfg W infile = Some rows \<or> final_index P cfg W infile = Some rows"
  shows "\<exists>metas. ranked_metas P cfg W infile = Some metas \<and>
     map unsigned rows = map (initial_row P) metas"
  using assms
  by (auto simp: first_index_def final_index_def initial_row_def final_row_def unsigned_def
      comp_def split: option.splits)

lemma col_fid_unsigned: "col_fid (unsigned r) = col_fid r"
  by (simp add: unsigned_def)

lemma col_rarityScore_unsigned: "col_rarityScore (unsigned r) = col_rarityScore r"
  by (simp add: unsigned_def)

text \<open>
  \<^bold>\<open>C8\<close>. The claim: the index file has one row per non-blank input line, duplicate
  identifiers being processed independently, and its rows are in descending score order.
  The order fails when a score is \<^verbatim>\<open>NaN\<close>: on the input lines 1 and 2, where the
  payload of 1 has the rarities \<^verbatim>\<open>1e999\<close> and \<^verbatim>\<open>-1e999\<close>, the rows have the scores
  \<^verbatim>\<open>NaN\<close> and 1, which are descending in neither order. And the signature columns are
  looked up by identifier: on the input lines 7, 8, 7 with two targets (the scores 5 and
  3), the row of the second 7 (score 1), which is no target, carries the signature file
  of the first.
\<close>

theorem index_order_counterexample:
  "final_index sample_platform (sample_config '''' False) (sample_world overflow_payloads)
      (Some short_infile) =
     Some [\<lparr> col_fid = ''1'', col_rarityScore = NaN, col_traits = ''trait:a | trait:b'',
              col_json = ''warplet-1.json'', col_png = '''',
              col_signature = '''', col_sig_error = ''NO_WALLET'' \<rparr>,
           \<lparr> col_fid = ''2'', col_rarityScore = Num 1, col_traits = '''',
              col_json = ''warplet-2.json'', col_png = '''',
              col_signature = '''', col_sig_error = ''NO_WALLET'' \<rparr>] \<and>
   \<not> sorted_wrt num_ge [NaN, Num 1] \<and> \<not> sorted_wrt num_ge [Num 1, NaN] \<and>
   final_index sample_platform (sample_config ''0xabc'' True) (sample_world sample_payloads)
      (Some sample_infile) =
     Some [\<lparr> col_fid = ''8'', col_rarityScore = Num 5, col_traits = '''',
              col_json = ''warplet-8.json'', col_png = '''',
              col_signature = ''sign-8.json'', col_sig_error = '''' \<rparr>,
           \<lparr> col_fid = ''7'', col_rarityScore = Num 3, col_traits = ''hat:red'',
              col_json = ''warplet-7.json'', col_png = '''',
              col_signature = ''sign-7.json'', col_sig_error = '''' \<rparr>,
           \<lparr> col_fid = ''7'', col_rarityScore = Num 1, col_traits = ''trait:blue | trait:'',
              col_json = ''warplet-7.json'', col_png = '''',
              col_signature = ''sign-7.json'', col_sig_error = '''' \<rparr>] \<and>
   map_option (map score \<circ> targets (sample_config ''0xabc'' True))
      (ranked_metas sample_platform (sample_config ''0xabc'' True) (sample_world sample_payloads)
         (Some sample_infile)) = Some [Num 5, Num 3]"
  by (simp add: final_index_def ranked_metas_def read_fids_def trim_def is_space_def
      generate_task_def generateMeta_def sample_world_def sample_platform_def sample_config_def
      sample_payloads_def overflow_payloads_def sample_infile_def short_infile_def succeeded_def
      scored_entry_def rarityScore_def traitsSummary_def normalizeTraits_def raw_traits_def
      opt_prop_def normalizeTrait_def or_default_def nullish_def endsWith_percent_def
      trait_summary_def toFixed6_def score_step_def maybeSavePng_def or_else_def sort_metas_def
      array_sort_def targets_def final_row_def sigMap_def generate_backoff_def maxBack_def
      slice0_def num_ge_def sign_task_def requestSignature_def sign_backoff_def rearrange_def)

text \<open>
  \<^bold>\<open>C8\<close>, amended. Whenever the index file is written (the first time or the final time),
  it has exactly one row per non-blank line of the input file: each non-blank line is
  generated and scored on its own, from its own responses, and the rows, their two
  signature columns apart, are the rows of these entries in some order; so the
  identifiers of the rows are, with multiplicity, the trimmed non-blank lines, and a
  repeated identifier has one row per line. The rows are in descending order of
  \<^verbatim>\<open>rarityScore\<close> when no score is \<^verbatim>\<open>NaN\<close>.
\<close>

theorem index_one_row_per_line_descending:
  assumes "first_index P cfg W (Some content) = Some rows \<or>
           final_index P cfg W (Some content) = Some rows"
  shows "(\<exists>ms. length ms = length (nonblank_lines content) \<and>
            (\<forall>j < length ms.
               generate_task P cfg (trim (nonblank_lines content ! j)) (gen_world W j)
                 = Some (ms ! j)) \<and>
            mset (map unsigned rows) = mset (map (initial_row P) ms)) \<and>
         length rows = length (nonblank_lines content) \<and>
         mset (map col_fid rows) = mset (map trim (nonblank_lines content)) \<and>
         (list_all (\<lambda>r. col_rarityScore r \<noteq> NaN) rows \<longrightarrow>
            sorted_wrt num_ge (map col_rarityScore rows))"
proof -
  from rows_of_metas[OF assms] obtain metas where
    r: "ranked_metas P cfg W (Some content) = Some metas"
    and u: "map unsigned rows = map (initial_row P) metas"
    by blast
  from ranked_metas_entries[OF r] obtain ms where
    len: "length ms = length (nonblank_lines content)"
    and nth: "\<forall>j < length ms.
        generate_task P cfg (trim (nonblank_lines content ! j)) (gen_world W j) = Some (ms ! j)"
    and metas: "metas = sort_metas W ms"
    by blast
  have perm: "mset (map unsigned rows) = mset (map (initial_row P) ms)"
    using u metas by (metis mset_map mset_sort_metas)
  have lrows: "length rows = length (nonblank_lines content)"
    using mset_eq_length[OF perm] len by simp
  have "map col_fid rows = map col_fid (map unsigned rows)"
    by (simp add: col_fid_unsigned)
  also have "\<dots> = map fid metas"
    unfolding u by (simp add: initial_row_def comp_def)
  finally have fids: "map col_fid rows = map fid metas" .
  have "map fid ms = map trim (nonblank_lines content)"
  proof (rule nth_equalityI)
    show "length (map fid ms) = length (map trim (nonblank_lines content))"
      using len by simp
    show "map fid ms ! j = map trim (nonblank_lines content) ! j" if "j < length (map fid ms)" for j
      using that nth len generate_task_fid by (metis length_map nth_map)
  qed
  moreover have "mset (map fid metas) = mset (map fid ms)"
    unfolding metas by (metis mset_map mset_sort_metas)
  ultimately have mfid: "mset (map col_fid rows) = mset (map trim (nonblank_lines content))"
    using fids by simp
  have "map col_rarityScore rows = map col_rarityScore (map unsigned rows)"
    by (simp add: col_rarityScore_unsigned)
  also have "\<dots> = map score metas"
    unfolding u by (simp add: initial_row_def comp_def)
  finally have scores: "map col_rarityScore rows = map score metas" .
  have "sorted_wrt num_ge (map col_rarityScore rows)"
    if "list_all (\<lambda>r. col_rarityScore r \<noteq> NaN) rows"
  proof -
    from that have "NaN \<notin> set (map col_rarityScore rows)"
      by (auto simp: list_all_iff)
    then have "NaN \<notin> score ` set metas" using scores by simp
    moreover have "set metas = set ms"
      unfolding metas by (rule mset_eq_setD) (rule mset_sort_metas)
    ultimately have "\<forall>m \<in> set ms. score m \<noteq> NaN"
      by (metis imageI)
    then have fin: "list_all (\<lambda>m. score m \<noteq> NaN) ms"
      by (simp add: list_all_iff)
    then have s: "sort_metas W ms = array_sort (\<lambda>a b. diff_sign (score b) (score a)) ms"
      by (simp add: sort_metas_def)
    from fin have "\<forall>m \<in> set ms. score m \<noteq> NaN" by (simp add: list_all_iff)
    then have "sorted_wrt (\<lambda>a b. num_ge (score a) (score b)) (sort_metas W ms)"
      unfolding s by (rule descending_array_sort)
    then show ?thesis using scores metas by (simp add: sorted_wrt_map)
  qed
  with perm len nth lrows mfid show ?thesis by blast
qed

theorem index_one_row_per_line_descending_witness:
  "final_index sample_platform (sample_config ''0xabc'' True) (sample_world sample_payloads)
      (Some sample_infile) =
     Some [\<lparr> col_fid = ''8'', col_rarityScore = Num 5, col_traits = '''',
              col_json = ''warplet-8.json'', col_png = '''',
              col_signature = ''sign-8.json'', col_sig_error = '''' \<rparr>,
           \<lparr> col_fid = ''7'', col_rarityScore = Num 3, col_traits = ''hat:red'',
              col_json = ''warplet-7.json'', col_png = '''',
              col_signature = ''sign-7.json'', col_sig_error = '''' \<rparr>,
           \<lparr> col_fid = ''7'', col_rarityScore = Num 1, col_traits = ''trait:blue | trait:'',
              col_json = ''warplet-7.json'', col_png = '''',
              col_signature = ''sign-7.json'', col_sig_error = '''' \<rparr>] \<and>
   nonblank_lines sample_infile = [''7'', '' 8'', ''7''] \<and>
   length [''7'', '' 8'', ''7''] = (3::nat) \<and>
   sorted_wrt num_ge [Num 5, Num 3, Num 1]"
proof -
  let ?rows = "[\<lparr> col_fid = ''8'', col_rarityScore = Num 5, col_traits = '''',
              col_json = ''warplet-8.json'', col_png = '''',
              col_signature = ''sign-8.json'', col_sig_error = '''' \<rparr>,
           \<lparr> col_fid = ''7'', col_rarityScore = Num 3, col_traits = ''hat:red'',
              col_json = ''warplet-7.json'', col_png = '''',
              col_signature = ''sign-7.json'', col_sig_error = '''' \<rparr>,
           \<lparr> col_fid = ''7'', col_rarityScore = Num 1, col_traits = ''trait:blue | trait:'',
              col_json = ''warplet-7.json'', col_png = '''',
              col_signature = ''sign-7.json'', col_sig_error = '''' \<rparr>]"
  have run: "final_index sample_platform (sample_config ''0xabc'' True)
      (sample_world sample_payloads) (Some sample_infile) = Some ?rows"
    by (simp add: final_index_def ranked_metas_def read_fids_def trim_def is_space_def
        generate_task_def generateMeta_def sample_world_def sample_platform_def sample_config_def
        sample_payloads_def sample_infile_def succeeded_def scored_entry_def rarityScore_def
        traitsSummary_def normalizeTraits_def raw_traits_def opt_prop_def normalizeTrait_def
        or_default_def nullish_def endsWith_percent_def trait_summary_def toFixed6_def
        score_step_def maybeSavePng_def or_else_def sort_metas_def array_sort_def targets_def
        final_row_def sigMap_def generate_backoff_def maxBack_def slice0_def num_ge_def
        sign_task_def requestSignature_def sign_backoff_def)
  have lines: "nonblank_lines sample_infile = [''7'', '' 8'', ''7'']"
    by (simp add: nonblank_lines_def sample_infile_def is_space_def)
  have fin: "list_all (\<lambda>r. col_rarityScore r \<noteq> NaN) ?rows" by simp
  from index_one_row_per_line_descending [OF disjI2, OF run] fin
  have "length ?rows = length (nonblank_lines sample_infile) \<and>
      sorted_wrt num_ge (map col_rarityScore ?rows)"
    by blast
  with run lines show ?thesis by simp
qed

text \<open>
  \<^bold>\<open>C9\<close>. With no wallet address configured the target set is empty, the final index is
  written as soon as the entries are ranked (its rows are built with an empty signature
  map), and every row of it has \<^verbatim>\<open>sig_error\<close> equal to \<^verbatim>\<open>NO_WALLET\<close> and an empty
  \<^verbatim>\<open>signature\<close>.
\<close>

theorem no_wallet_rows:
  assumes "ADDR cfg = []"
  shows "targets cfg metas = [] \<and>
     final_index P cfg W infile =
       map_option (map (final_row P cfg Map.empty)) (ranked_metas P cfg W infile) \<and>
     (final_index P cfg W infile = Some rows \<longrightarrow>
        (\<forall>r \<in> set rows. col_sig_error r = ''NO_WALLET'' \<and> col_signature r = ''''))"
  using assms
  by (auto simp: targets_def final_index_def sigMap_def final_row_def split: option.splits)

theorem no_wallet_rows_witness:
  "ADDR (sample_config '''' False) = [] \<and>
   final_index sample_platform (sample_config '''' False) (sample_world sample_payloads)
      (Some sample_infile) =
     Some [\<lparr> col_fid = ''8'', col_rarityScore = Num 5, col_traits = '''',
              col_json = ''warplet-8.json'', col_png = '''',
              col_signature = '''', col_sig_error = ''NO_WALLET'' \<rparr>,
           \<lparr> col_fid = ''7'', col_rarityScore = Num 3, col_traits = ''hat:red'',
              col_json = ''warplet-7.json'', col_png = '''',
              col_signature = '''', col_sig_error = ''NO_WALLET'' \<rparr>,
           \<lparr> col_fid = ''7'', col_rarityScore = Num 1, col_traits = ''trait:blue | trait:'',
              col_json = ''warplet-7.json'', col_png = '''',
              col_signature = '''', col_sig_error = ''NO_WALLET'' \<rparr>] \<and>
   targets (sample_config '''' False) [sample_meta ''A'' (Num 5)] = []"
proof -
  let ?rows = "[\<lparr> col_fid = ''8'', col_rarityScore = Num 5, col_traits = '''',
              col_json = ''warplet-8.json'', col_png = '''',
              col_signature = '''', col_sig_error = ''NO_WALLET'' \<rparr>,
           \<lparr> col_fid = ''7'', col_rarityScore = Num 3, col_traits = ''hat:red'',
              col_json = ''warplet-7.json'', col_png = '''',
              col_signature = '''', col_sig_error = ''NO_WALLET'' \<rparr>,
           \<lparr> col_fid = ''7'', col_rarityScore = Num 1, col_traits = ''trait:blue | trait:'',
              col_json = ''warplet-7.json'', col_png = '''',
              col_signature = '''', col_sig_error = ''NO_WALLET'' \<rparr>]"
  have addr: "ADDR (sample_config '''' False) = []"
    by (simp add: sample_config_def)
  have run: "final_index sample_platform (sample_config '''' False)
      (sample_world sample_payloads) (Some sample_infile) = Some ?rows"
    by (simp add: final_index_def ranked_metas_def read_fids_def trim_def is_space_def
        generate_task_def generateMeta_def sample_world_def sample_platform_def sample_config_def
        sample_payloads_def sample_infile_def succeeded_def scored_entry_def rarityScore_def
        traitsSummary_def normalizeTraits_def raw_traits_def opt_prop_def normalizeTrait_def
        or_default_def nullish_def endsWith_percent_def trait_summary_def toFixed6_def
        score_step_def maybeSavePng_def or_else_def sort_metas_def array_sort_def targets_def
        final_row_def sigMap_def generate_backoff_def maxBack_def)
  from no_wallet_rows [OF addr, of "[sample_meta ''A'' (Num 5)]" sample_platform
      "sample_world sample_payloads" "Some sample_infile" ?rows] run
  have "targets (sample_config '''' False) [sample_meta ''A'' (Num 5)] = [] \<and>
      (\<forall>r \<in> set ?rows. col_sig_error r = ''NO_WALLET'' \<and> col_signature r = '''')"
    by blast
  with addr run show ?thesis by blast
qed

end
